theory Spec2Isabelle
  imports Complex_Main "HOL-Library.Word"
begin

section \<open>Python values, exceptions and the outside world\<close>

text \<open>
  The module \<open>ZhiCounterTimerController.py\<close> holds two classes: \<open>boxcars\<close>, a wrapper
  around a Zurich Instruments data-server session, and \<open>ZhiCounterTimerController\<close>,
  the Sardana controller built on it. Every method is modelled as a function on the
  object's fields (a record) and on the outside world. An exception is a value: a method
  that can raise returns \<open>py_error + 'a\<close>, with \<open>Inl\<close> for the exception.

  Floating-point numbers are kept abstract: the type variable \<open>'f\<close> stands for a
  binary64 value, and the numerical routines of NumPy and SciPy the code calls are the
  fields of a record \<open>numlib\<close>, so every theorem holds for whatever these routines
  compute. Time stamps are unsigned 64-bit integers, as the data server delivers them.
\<close>

datatype py_error =
    PyException string
  | TypeError
  | KeyError
  | IndexError
  | ValueError
  | AttributeError
  | RuntimeError

datatype 'f pyval = PyNone | PyInt int | PyFloat 'f

definition and_then :: "py_error + 'a \<Rightarrow> ('a \<Rightarrow> py_error + 'b) \<Rightarrow> py_error + 'b" where
  "and_then m f = (case m of Inl e \<Rightarrow> Inl e | Inr x \<Rightarrow> f x)"

text \<open>\<open>xs[i]\<close> on a Python list or tuple. An index from \<open>0\<close> up to the length reads
  from the front, one from \<open>-1\<close> down to minus the length reads from the back, and
  every other index raises IndexError.\<close>

definition py_getitem :: "'a list \<Rightarrow> int \<Rightarrow> py_error + 'a" where
  "py_getitem xs i =
     (if 0 \<le> i \<and> i < int (length xs) then Inr (xs ! nat i)
      else if i < 0 \<and> - int (length xs) \<le> i then Inr (xs ! nat (int (length xs) + i))
      else Inl IndexError)"

text \<open>\<open>re.search(p, s)\<close> for a pattern \<open>p\<close> without metacharacters (here \<open>'BOX'\<close>): is
  \<open>p\<close> a contiguous part of \<open>s\<close>, scanning from the left.\<close>

fun starts_with :: "string \<Rightarrow> string \<Rightarrow> bool" where
  "starts_with [] s = True"
| "starts_with (p # ps) [] = False"
| "starts_with (p # ps) (c # cs) = (p = c \<and> starts_with ps cs)"

fun re_search :: "string \<Rightarrow> string \<Rightarrow> bool" where
  "re_search p [] = starts_with p []"
| "re_search p (c # cs) = (starts_with p (c # cs) \<or> re_search p cs)"

text \<open>\<open>'%d' % n\<close> for a natural number.\<close>

fun fmt_d :: "nat \<Rightarrow> string" where
  "fmt_d n =
     (if n < 10 then [''0123456789'' ! n] else fmt_d (n div 10) @ [''0123456789'' ! (n mod 10)])"

text \<open>\<open>os.path.join(a, b)\<close> with two components, on POSIX.\<close>

definition path_join :: "string \<Rightarrow> string \<Rightarrow> string" where
  "path_join a b =
     (if starts_with ''/'' b then b
      else if a = [] \<or> last a = CHR ''/'' then a @ b
      else a @ ''/'' @ b)"

text \<open>Multiplying a string by a string, \<open>"..." * "..."\<close>, raises TypeError in Python
  (a sequence can be multiplied by an integer only), whatever the two strings are.\<close>

definition py_str_mul_str :: "string \<Rightarrow> string \<Rightarrow> py_error + string" where
  "py_str_mul_str s t = Inl TypeError"

subsection \<open>The data server\<close>

text \<open>
  The session object \<open>self.daq\<close> belongs to the vendor's library. Its methods are modelled
  by what they leave behind, an entry in the list of calls made so far, and by what
  they answer: the answers of the server to the constructor are the fields of
  \<open>zi_server\<close>, and the constructor's calls are taken to return. The two calls of an
  acquisition, \<open>flush\<close> and \<open>poll\<close>, may raise: what they do is an \<open>acq_outcome\<close>.
\<close>

datatype 'f daq_call =
    ZiDAQServer string int int
  | ConnectDevice string string
  | Connect
  | GetDefaultSettingsPath
  | LoadSettings string string
  | GetByte string
  | GetDouble string
  | GetConnectionAPILevel
  | Sync
  | Subscribe string
  | Flush
  | Poll "'f pyval" int int bool
  | Unsubscribe string

record 'f zi_server =
  default_settings_path :: string
  getByte :: "string \<Rightarrow> string"
  getDouble :: "string \<Rightarrow> 'f"
  getConnectionAPILevel :: int

record 'f world =
  calls :: "'f daq_call list"
  warnings :: "string list"

definition call :: "'f daq_call \<Rightarrow> 'f world \<Rightarrow> 'f world" where
  "call c w = w\<lparr>calls := calls w @ [c]\<rparr>"

definition warnings_warn :: "string \<Rightarrow> 'f world \<Rightarrow> 'f world" where
  "warnings_warn msg w = w\<lparr>warnings := warnings w @ [msg]\<rparr>"

text \<open>What \<open>daq.poll(..., poll_return_flat_dict=False)\<close> returns: nested dictionaries
  whose leaves are arrays of doubles or of unsigned 64-bit integers.\<close>

datatype 'f zi_node =
    ZiDict "(string \<times> 'f zi_node) list"
  | ZiDoubles "'f list"
  | ZiUInt64s "64 word list"

text \<open>The attribute \<open>self.data\<close> of a \<open>boxcars\<close> object: the constructor does not set it,
  \<open>startAcq\<close> sets it to \<open>[]\<close>, \<open>pollData\<close> to the poll result when the poll returns.\<close>

datatype 'f data_attr = Unset | EmptyList | Polled "'f zi_node"

section \<open>The class \<open>boxcars\<close>\<close>

record 'f boxcars =
  device :: string
  iface :: string
  timeOut :: int
  acqStartTime :: "'f option"
  acqEndTime :: "'f option"
  isAcquiring :: bool
  devtype :: string
  options :: string
  clock :: 'f
  data :: "'f data_attr"

definition sample_path :: "string \<Rightarrow> nat \<Rightarrow> string" where
  "sample_path dev n = ''/'' @ dev @ ''/boxcars/'' @ fmt_d n @ ''/sample''"

text \<open>The branch taken when the connection's API level is not 6: the argument of
  \<open>warnings.warn\<close> is evaluated first, the warning is issued if that returns.\<close>

definition warn_api_level :: "'f world \<Rightarrow> (py_error + unit) \<times> 'f world" where
  "warn_api_level w =
     (case py_str_mul_str ''ziDAQServer is using API Level 1, it is strongly recommended ''
             ''to use API Level 6 in order to obtain boxcar data with timestamps.'' of
        Inl e \<Rightarrow> (Inl e, w)
      | Inr msg \<Rightarrow> (Inr (), warnings_warn msg w))"

text \<open>Lines 48 to 51: \<open>sync()\<close>, then the subscription to the sample path of boxcar 0 and
  to that of boxcar 1.\<close>

definition subscribe_boxcars :: "string \<Rightarrow> 'f world \<Rightarrow> 'f world" where
  "subscribe_boxcars dev w =
     call (Subscribe (sample_path dev 1)) (call (Subscribe (sample_path dev 0)) (call Sync w))"

text \<open>\<open>boxcars.__init__\<close>. The result carries the world as well when the constructor
  raises: the calls made on the data server up to that point have been made. The
  argument \<open>repRate\<close> is not used, as in the source.\<close>

definition boxcars_init ::
  "'f zi_server \<Rightarrow> string \<Rightarrow> int \<Rightarrow> int \<Rightarrow> string \<Rightarrow> string \<Rightarrow> string \<Rightarrow> int \<Rightarrow> int \<Rightarrow>
     'f world \<Rightarrow> (py_error + 'f boxcars) \<times> 'f world" where
  "boxcars_init srv ip port api_level dev ifc settings repRate tmo w0 =
     (let w1 = call (ZiDAQServer ip port api_level) w0;
          w2 = call (ConnectDevice dev ifc) w1;
          w3 = call Connect w2;
          w4 = call GetDefaultSettingsPath w3;
          settings_path = path_join (default_settings_path srv) settings;
          w5 = call (LoadSettings dev settings_path) w4;
          w6 = call (GetByte (''/'' @ dev @ ''/features/devtype'')) w5;
          w7 = call (GetByte (''/'' @ dev @ ''/features/options'')) w6;
          w8 = call (GetDouble (''/'' @ dev @ ''/clockbase'')) w7;
          self = \<lparr>device = dev, iface = ifc, timeOut = tmo,
                  acqStartTime = None, acqEndTime = None, isAcquiring = False,
                  devtype = getByte srv (''/'' @ dev @ ''/features/devtype''),
                  options = getByte srv (''/'' @ dev @ ''/features/options''),
                  clock = getDouble srv (''/'' @ dev @ ''/clockbase''),
                  data = Unset\<rparr>
      in if \<not> re_search ''BOX'' (options self)
         then (Inl (PyException
                 ''This example can only be ran on a UHF with the BOX option enabled.''), w8)
         else
           let w9 = call GetConnectionAPILevel w8
           in if getConnectionAPILevel srv \<noteq> 6
              then (case warn_api_level w9 of
                      (Inl e, w10) \<Rightarrow> (Inl e, w10)
                    | (Inr u, w10) \<Rightarrow> (Inr self, subscribe_boxcars dev w10))
              else (Inr self, subscribe_boxcars dev w9))"

subsection \<open>Acquisition\<close>

text \<open>What the data server does during one acquisition: \<open>daq.flush()\<close> raises, or it
  returns and \<open>daq.poll(...)\<close> raises, or both return and the poll delivers its result.\<close>

datatype 'f acq_outcome =
    Flush_raises py_error
  | Poll_raises py_error
  | Poll_returns "'f zi_node"

text \<open>\<open>pollData\<close>, and \<open>startAcq\<close> which calls it. The readings of \<open>time.time()\<close> and the
  outcome of the two calls on the data server come from outside and are arguments.
  Neither method catches anything: when \<open>flush\<close> or \<open>poll\<close> raises, the statements after
  it are not run and the exception leaves the method, the object staying as it is at
  that point. The result is the exception or \<open>None\<close>, the object and the world.\<close>

definition pollData ::
  "'f acq_outcome \<Rightarrow> 'f \<Rightarrow> 'f pyval \<Rightarrow> 'f boxcars \<Rightarrow> 'f world \<Rightarrow>
     (py_error + unit) \<times> 'f boxcars \<times> 'f world" where
  "pollData outcome now intTime self w =
     (let poll_length = intTime;
          poll_timeout = 500;
          poll_flags = 4;
          poll_return_flat_dict = False;
          w1 = call Flush w
      in case outcome of
           Flush_raises e \<Rightarrow> (Inl e, self, w1)
         | Poll_raises e \<Rightarrow>
             (Inl e, self,
              call (Poll poll_length poll_timeout poll_flags poll_return_flat_dict) w1)
         | Poll_returns answer \<Rightarrow>
             (Inr (),
              self\<lparr>data := Polled answer, isAcquiring := False, acqEndTime := Some now\<rparr>,
              call (Poll poll_length poll_timeout poll_flags poll_return_flat_dict) w1))"

definition startAcq ::
  "'f \<Rightarrow> 'f acq_outcome \<Rightarrow> 'f \<Rightarrow> 'f pyval \<Rightarrow> 'f boxcars \<Rightarrow> 'f world \<Rightarrow>
     (py_error + unit) \<times> 'f boxcars \<times> 'f world" where
  "startAcq now0 outcome now1 intTime self w =
     pollData outcome now1 intTime
       (self\<lparr>isAcquiring := True, acqStartTime := Some now0, data := EmptyList\<rparr>) w"

text \<open>\<open>close\<close>: it unsubscribes from all paths. No method of the controller calls it.\<close>

definition close :: "'f world \<Rightarrow> 'f world" where
  "close w = call (Unsubscribe ''*'') w"

subsection \<open>The reduction\<close>

text \<open>The routines of NumPy, SciPy and binary64 arithmetic that \<open>readData\<close> uses.
  \<open>np_mean\<close> is \<open>np.mean(a, dtype=np.float64)\<close> on an array of doubles,
  \<open>np_mean_uint64\<close> is \<open>np.mean\<close> on an array of unsigned 64-bit integers, \<open>sem\<close> is
  \<open>scipy.stats.sem\<close>. None of them raises: an empty array or a division by zero gives
  a NaN or an infinity and a warning.\<close>

record 'f numlib =
  np_isnan :: "'f \<Rightarrow> bool"
  np_mean :: "'f list \<Rightarrow> 'f"
  np_mean_uint64 :: "64 word list \<Rightarrow> 'f"
  sem :: "'f list \<Rightarrow> 'f"
  float_div :: "'f \<Rightarrow> 'f \<Rightarrow> 'f"
  float_sub :: "'f \<Rightarrow> 'f \<Rightarrow> 'f"
  float_abs :: "'f \<Rightarrow> 'f"
  float_of_int :: "int \<Rightarrow> 'f"

text \<open>\<open>d[k]\<close> on a poll result: a missing key raises KeyError, a string index into an
  array raises IndexError.\<close>

fun getitem :: "'f zi_node \<Rightarrow> string \<Rightarrow> py_error + 'f zi_node" where
  "getitem (ZiDict kvs) k = (case map_of kvs k of None \<Rightarrow> Inl KeyError | Some v \<Rightarrow> Inr v)"
| "getitem (ZiDoubles xs) k = Inl IndexError"
| "getitem (ZiUInt64s xs) k = Inl IndexError"

text \<open>\<open>self.data[self.device]['boxcars'][ch]['sample'][field]\<close>.\<close>

definition boxcar_array :: "'f zi_node \<Rightarrow> string \<Rightarrow> string \<Rightarrow> string \<Rightarrow> py_error + 'f zi_node" where
  "boxcar_array d dev ch field =
     and_then (getitem d dev) (\<lambda>a.
     and_then (getitem a ''boxcars'') (\<lambda>b.
     and_then (getitem b ch) (\<lambda>c.
     and_then (getitem c ''sample'') (\<lambda>s.
     getitem s field))))"

text \<open>The data server delivers \<open>value\<close> as an array of doubles and \<open>timestamp\<close> as an
  array of unsigned 64-bit integers; a node of another shape in their place is
  rejected here with TypeError.\<close>

fun as_doubles :: "'f zi_node \<Rightarrow> py_error + 'f list" where
  "as_doubles (ZiDoubles xs) = Inr xs"
| "as_doubles (ZiUInt64s ts) = Inl TypeError"
| "as_doubles (ZiDict kvs) = Inl TypeError"

fun as_uint64s :: "'f zi_node \<Rightarrow> py_error + 64 word list" where
  "as_uint64s (ZiUInt64s ts) = Inr ts"
| "as_uint64s (ZiDoubles xs) = Inl TypeError"
| "as_uint64s (ZiDict kvs) = Inl TypeError"

text \<open>\<open>self.data[self.device]['boxcars'][ch]['sample']['value']\<close> and the same with
  \<open>['timestamp']\<close>.\<close>

definition boxcar_value :: "'f zi_node \<Rightarrow> string \<Rightarrow> string \<Rightarrow> py_error + 'f list" where
  "boxcar_value d dev ch = and_then (boxcar_array d dev ch ''value'') as_doubles"

definition boxcar_timestamp :: "'f zi_node \<Rightarrow> string \<Rightarrow> string \<Rightarrow> py_error + 64 word list" where
  "boxcar_timestamp d dev ch = and_then (boxcar_array d dev ch ''timestamp'') as_uint64s"

text \<open>\<open>a & b\<close> on two one-dimensional boolean arrays, with NumPy's broadcasting: equal
  lengths combine element by element, an array of length one is stretched to the
  other's length, anything else raises ValueError.\<close>

definition np_and :: "bool list \<Rightarrow> bool list \<Rightarrow> py_error + bool list" where
  "np_and xs ys =
     (if length xs = length ys then Inr (map2 (\<and>) xs ys)
      else case xs of
        [x] \<Rightarrow> Inr (map (\<lambda>y. x \<and> y) ys)
      | _ \<Rightarrow> (case ys of
                 [y] \<Rightarrow> Inr (map (\<lambda>x. x \<and> y) xs)
               | _ \<Rightarrow> Inl ValueError))"

text \<open>\<open>a[mask]\<close> with a boolean mask: the mask must be as long as the array.\<close>

definition bool_index :: "'a list \<Rightarrow> bool list \<Rightarrow> py_error + 'a list" where
  "bool_index xs sel =
     (if length sel = length xs then Inr (map fst (filter snd (zip xs sel)))
      else Inl IndexError)"

text \<open>\<open>np.diff\<close> on an array of unsigned 64-bit integers: the differences wrap around.\<close>

fun np_diff :: "64 word list \<Rightarrow> 64 word list" where
  "np_diff (x # y # ys) = (y - x) # np_diff (y # ys)"
| "np_diff [x] = []"
| "np_diff [] = []"

text \<open>Lines 83 and 84:
  \<open>(timestamp >= maxStartTime) & (timestamp <= minFinishTime) & (~np.isnan(value))\<close>.\<close>

definition select_mask ::
  "'f numlib \<Rightarrow> 64 word \<Rightarrow> 64 word \<Rightarrow> 64 word list \<Rightarrow> 'f list \<Rightarrow> py_error + bool list" where
  "select_mask L maxStartTime minFinishTime timestamp val =
     and_then (np_and (map (\<lambda>t. maxStartTime \<le> t) timestamp)
                      (map (\<lambda>t. t \<le> minFinishTime) timestamp)) (\<lambda>m.
     np_and m (map (\<lambda>v. \<not> np_isnan L v) val))"

definition readData :: "'f numlib \<Rightarrow> 'f boxcars \<Rightarrow> py_error + 'f pyval list" where
  "readData L self =
     (case data self of
        Unset \<Rightarrow> Inl AttributeError
      | EmptyList \<Rightarrow> Inl TypeError
      | Polled d \<Rightarrow>
          and_then (boxcar_value d (device self) ''0'') (\<lambda>boxcar1_value.
          and_then (boxcar_timestamp d (device self) ''0'') (\<lambda>boxcar1_timestamp.
          and_then (boxcar_value d (device self) ''1'') (\<lambda>boxcar2_value.
          and_then (boxcar_timestamp d (device self) ''1'') (\<lambda>boxcar2_timestamp.
          and_then (py_getitem boxcar1_timestamp 0) (\<lambda>first1.
          and_then (py_getitem boxcar2_timestamp 0) (\<lambda>first2.
          let maxStartTime = max first1 first2 in
          and_then (py_getitem boxcar1_timestamp (- 1)) (\<lambda>last1.
          and_then (py_getitem boxcar2_timestamp (- 1)) (\<lambda>last2.
          let minFinishTime = min last1 last2 in
          and_then (select_mask L maxStartTime minFinishTime boxcar1_timestamp boxcar1_value)
            (\<lambda>select1.
          and_then (select_mask L maxStartTime minFinishTime boxcar2_timestamp boxcar2_value)
            (\<lambda>select2.
          and_then (bool_index boxcar1_timestamp select1) (\<lambda>timestamp1_sel.
          let freq = float_div L (float_of_int L 1)
                       (float_div L (np_mean_uint64 L (np_diff timestamp1_sel)) (clock self)) in
          and_then (case (acqEndTime self, acqStartTime self) of
                      (Some e, Some s) \<Rightarrow> Inr (float_sub L e s)
                    | _ \<Rightarrow> Inl TypeError) (\<lambda>duration.
          and_then (bool_index boxcar1_value select1) (\<lambda>value1_sel.
          let mean1 = np_mean L value1_sel in
          and_then (bool_index boxcar2_value select2) (\<lambda>value2_sel.
          let mean2 = np_mean L value2_sel;
              rel = float_div L mean1 mean2;
              diff = float_abs L (float_sub L mean1 mean2)
          in Inr [PyFloat mean1, PyFloat mean2,
                  PyFloat (sem L value1_sel), PyFloat (sem L value2_sel),
                  PyInt (int (length value1_sel)), PyFloat freq, PyFloat duration,
                  PyFloat rel, PyFloat diff])))))))))))))))"

section \<open>The class \<open>ZhiCounterTimerController\<close>\<close>

text \<open>The states of \<open>sardana.State\<close>.\<close>

datatype State =
    State_On | State_Off | State_Close | State_Open | State_Insert | State_Extract
  | State_Moving | State_Standby | State_Fault | State_Init | State_Running
  | State_Alarm | State_Disable | State_Unknown | State_Invalid

text \<open>The controller's attributes: its seven properties, set by the framework's
  constructor from \<open>props\<close>, the \<open>boxcars\<close> object \<open>zhi\<close>, the cached tuple \<open>data\<close> and
  the flag the constructor spells \<open>isAquiring\<close>. The two \<open>print\<close> calls of the
  constructor are left out.\<close>

record 'f controller =
  IP :: string
  port :: int
  ctrl_device :: string
  ctrl_iface :: string
  settings :: string
  repRate :: int
  ctrl_timeOut :: int
  zhi :: "'f boxcars"
  ctrl_data :: "'f pyval list"
  isAquiring :: bool

definition controller_init ::
  "'f zi_server \<Rightarrow> string \<Rightarrow> int \<Rightarrow> string \<Rightarrow> string \<Rightarrow> string \<Rightarrow> int \<Rightarrow> int \<Rightarrow>
     'f world \<Rightarrow> (py_error + 'f controller) \<times> 'f world" where
  "controller_init srv ip prt dev ifc sett rate tmo w =
     (case boxcars_init srv ip prt 6 dev ifc sett rate tmo w of
        (Inl e, w') \<Rightarrow> (Inl e, w')
      | (Inr b, w') \<Rightarrow>
          (Inr \<lparr>IP = ip, port = prt, ctrl_device = dev, ctrl_iface = ifc, settings = sett,
                repRate = rate, ctrl_timeOut = tmo, zhi = b, ctrl_data = [],
                isAquiring = False\<rparr>, w'))"

definition ReadOne ::
  "'f numlib \<Rightarrow> int \<Rightarrow> 'f controller \<Rightarrow> (py_error + 'f pyval) \<times> 'f controller" where
  "ReadOne L axis self =
     (if axis = 0
      then (case readData L (zhi self) of
              Inl e \<Rightarrow> (Inl e, self)
            | Inr t \<Rightarrow> (py_getitem t axis, self\<lparr>ctrl_data := t\<rparr>))
      else (py_getitem (ctrl_data self) axis, self))"

definition StateOne :: "int \<Rightarrow> 'f controller \<Rightarrow> State \<times> string" where
  "StateOne axis self =
     (if isAcquiring (zhi self) then (State_Moving, ''Counter is acquiring'')
      else (State_On, ''Counter is stopped''))"

definition StartOne ::
  "'f \<Rightarrow> 'f acq_outcome \<Rightarrow> 'f \<Rightarrow> int \<Rightarrow> 'f pyval \<Rightarrow> 'f controller \<Rightarrow> 'f world \<Rightarrow>
     (py_error + unit) \<times> 'f controller \<times> 'f world" where
  "StartOne now0 outcome now1 axis val self w =
     (if axis = 0
      then (case startAcq now0 outcome now1 val (zhi self) w of
              (r, b, w') \<Rightarrow> (r, self\<lparr>zhi := b\<rparr>, w'))
      else (Inr (), self, w))"

text \<open>The calls the framework can make on a constructed controller. A call of
  \<open>StartOne\<close> carries what the outside answers during it: the clock before the poll,
  the outcome of flush and poll, the clock after the poll. A call that raises leaves
  the controller as it is at that point, and the framework may go on calling it.\<close>

datatype 'f ctrl_call =
    Call_AddDevice int
  | Call_DeleteDevice int
  | Call_ReadOne int
  | Call_StateOne int
  | Call_StartOne int "'f pyval" 'f "'f acq_outcome" 'f
  | Call_StartAll
  | Call_LoadOne int "'f pyval" int "'f pyval"
  | Call_StopOne int

fun step :: "'f numlib \<Rightarrow> 'f ctrl_call \<Rightarrow> 'f controller \<times> 'f world \<Rightarrow> 'f controller \<times> 'f world" where
  "step L (Call_AddDevice axis) (c, w) = (c, w)"
| "step L (Call_DeleteDevice axis) (c, w) = (c, w)"
| "step L (Call_ReadOne axis) (c, w) = (snd (ReadOne L axis c), w)"
| "step L (Call_StateOne axis) (c, w) = (c, w)"
| "step L (Call_StartOne axis val now0 outcome now1) (c, w) =
     snd (StartOne now0 outcome now1 axis val c w)"
| "step L Call_StartAll (c, w) = (c, w)"
| "step L (Call_LoadOne axis val repetitions latency) (c, w) = (c, w)"
| "step L (Call_StopOne axis) (c, w) = (c, w)"

fun run :: "'f numlib \<Rightarrow> 'f ctrl_call list \<Rightarrow> 'f controller \<times> 'f world \<Rightarrow> 'f controller \<times> 'f world" where
  "run L [] s = s"
| "run L (x # xs) s = run L xs (step L x s)"

section \<open>Notions used in the statements\<close>

text \<open>The paths subscribed to, and the polls issued, in a list of calls.\<close>

fun subscribed :: "'f daq_call list \<Rightarrow> string list" where
  "subscribed [] = []"
| "subscribed (Subscribe p # cs) = p # subscribed cs"
| "subscribed (c # cs) = subscribed cs"

fun poll_timeouts :: "'f daq_call list \<Rightarrow> int list" where
  "poll_timeouts [] = []"
| "poll_timeouts (Poll len tmo flags flat # cs) = tmo # poll_timeouts cs"
| "poll_timeouts (c # cs) = poll_timeouts cs"

text \<open>The calls the constructor of \<open>boxcars\<close> makes when it returns.\<close>

definition init_calls :: "'f zi_server \<Rightarrow> string \<Rightarrow> int \<Rightarrow> int \<Rightarrow> string \<Rightarrow> string \<Rightarrow> string \<Rightarrow> 'f daq_call list" where
  "init_calls srv ip prt api_level dev ifc sett =
     [ZiDAQServer ip prt api_level, ConnectDevice dev ifc, Connect, GetDefaultSettingsPath,
      LoadSettings dev (path_join (default_settings_path srv) sett),
      GetByte (''/'' @ dev @ ''/features/devtype''),
      GetByte (''/'' @ dev @ ''/features/options''),
      GetDouble (''/'' @ dev @ ''/clockbase''),
      GetConnectionAPILevel, Sync,
      Subscribe (''/'' @ dev @ ''/boxcars/0/sample''),
      Subscribe (''/'' @ dev @ ''/boxcars/1/sample'')]"

text \<open>The calls on the data server that one acquisition with a given outcome makes, and
  the calls a sequence of controller calls adds.\<close>

fun outcome_calls :: "'f pyval \<Rightarrow> 'f acq_outcome \<Rightarrow> 'f daq_call list" where
  "outcome_calls val (Flush_raises e) = [Flush]"
| "outcome_calls val (Poll_raises e) = [Flush, Poll val 500 4 False]"
| "outcome_calls val (Poll_returns d) = [Flush, Poll val 500 4 False]"

fun acq_calls :: "'f ctrl_call list \<Rightarrow> 'f daq_call list" where
  "acq_calls [] = []"
| "acq_calls (Call_StartOne axis val now0 outcome now1 # xs) =
     (if axis = 0 then outcome_calls val outcome else []) @ acq_calls xs"
| "acq_calls (x # xs) = acq_calls xs"

text \<open>What the last acquisition of a sequence of controller calls leaves in \<open>zhi.data\<close>:
  the answer of its poll, or \<open>[]\<close> when its flush or its poll raised.\<close>

fun outcome_data :: "'f acq_outcome \<Rightarrow> 'f data_attr" where
  "outcome_data (Flush_raises e) = EmptyList"
| "outcome_data (Poll_raises e) = EmptyList"
| "outcome_data (Poll_returns d) = Polled d"

fun final_data :: "'f ctrl_call list \<Rightarrow> 'f data_attr \<Rightarrow> 'f data_attr" where
  "final_data [] a = a"
| "final_data (Call_StartOne axis val now0 outcome now1 # xs) a =
     final_data xs (if axis = 0 then outcome_data outcome else a)"
| "final_data (x # xs) a = final_data xs a"

text \<open>A controller call that starts no acquisition, and one during which neither flush
  nor poll raises.\<close>

fun no_acq :: "'f ctrl_call \<Rightarrow> bool" where
  "no_acq (Call_StartOne axis val now0 outcome now1) = (axis \<noteq> 0)"
| "no_acq x = True"

fun acq_returns :: "'f ctrl_call \<Rightarrow> bool" where
  "acq_returns (Call_StartOne axis val now0 (Flush_raises e) now1) = (axis \<noteq> 0)"
| "acq_returns (Call_StartOne axis val now0 (Poll_raises e) now1) = (axis \<noteq> 0)"
| "acq_returns x = True"

fun is_read0 :: "'f ctrl_call \<Rightarrow> bool" where
  "is_read0 (Call_ReadOne axis) = (axis = 0)"
| "is_read0 x = False"

text \<open>The samples of one channel inside the window from \<open>lo\<close> to \<open>hi\<close> whose value is
  not NaN, written as the description has it: a sample is a time stamp with its value.\<close>

definition in_window :: "'f numlib \<Rightarrow> 64 word \<Rightarrow> 64 word \<Rightarrow> 64 word \<times> 'f \<Rightarrow> bool" where
  "in_window L lo hi s = (lo \<le> fst s \<and> fst s \<le> hi \<and> \<not> np_isnan L (snd s))"

definition window_samples ::
  "'f numlib \<Rightarrow> 64 word \<Rightarrow> 64 word \<Rightarrow> 64 word list \<Rightarrow> 'f list \<Rightarrow> (64 word \<times> 'f) list" where
  "window_samples L lo hi ts vs = filter (in_window L lo hi) (zip ts vs)"

text \<open>What it means that a mask \<open>m\<close> over the values \<open>vs\<close> with the time stamps \<open>ts\<close>
  selects only samples that are not NaN and lie in the window from \<open>lo\<close> to \<open>hi\<close>:
  every selected value is not NaN and goes with a time stamp in the window, the one at
  its own index when there are as many time stamps as values.\<close>

definition mask_sound ::
  "'f numlib \<Rightarrow> 64 word \<Rightarrow> 64 word \<Rightarrow> 64 word list \<Rightarrow> 'f list \<Rightarrow> bool list \<Rightarrow> bool" where
  "mask_sound L lo hi ts vs m =
     (\<forall>i < length vs. m ! i \<longrightarrow>
        \<not> np_isnan L (vs ! i) \<and>
        (\<exists>j < length ts. lo \<le> ts ! j \<and> ts ! j \<le> hi \<and> (length ts = length vs \<longrightarrow> j = i)))"

subsection \<open>A concrete setting for examples\<close>

text \<open>Exact arithmetic on the reals, with \<open>None\<close> for NaN and for every result that is
  not a real number. It serves to run the definitions on concrete data.\<close>

definition exact_mean :: "real list \<Rightarrow> real option" where
  "exact_mean xs = (if xs = [] then None else Some (sum_list xs / real (length xs)))"

definition exact_sem :: "real list \<Rightarrow> real option" where
  "exact_sem xs =
     (if length xs < 2 then None
      else let m = sum_list xs / real (length xs)
           in Some (sqrt (sum_list (map (\<lambda>x. (x - m)\<^sup>2) xs) / real (length xs - 1)
                          / real (length xs))))"

definition exact_div :: "real option \<Rightarrow> real option \<Rightarrow> real option" where
  "exact_div a b =
     (case (a, b) of
        (Some x, Some y) \<Rightarrow> if y = 0 then None else Some (x / y)
      | _ \<Rightarrow> None)"

definition exact_sub :: "real option \<Rightarrow> real option \<Rightarrow> real option" where
  "exact_sub a b = (case (a, b) of (Some x, Some y) \<Rightarrow> Some (x - y) | _ \<Rightarrow> None)"

definition exact :: "real option numlib" where
  "exact =
     \<lparr>np_isnan = (\<lambda>x. x = None),
      np_mean = (\<lambda>xs. case those xs of None \<Rightarrow> None | Some ys \<Rightarrow> exact_mean ys),
      np_mean_uint64 = (\<lambda>ts. exact_mean (map (\<lambda>t. real (unat t)) ts)),
      sem = (\<lambda>xs. case those xs of None \<Rightarrow> None | Some ys \<Rightarrow> exact_sem ys),
      float_div = exact_div,
      float_sub = exact_sub,
      float_abs = map_option abs,
      float_of_int = (\<lambda>i. Some (real_of_int i))\<rparr>"

text \<open>A data server for a device \<open>dev2192\<close> with the given options and API level.\<close>

definition server :: "string \<Rightarrow> int \<Rightarrow> real option zi_server" where
  "server opts level =
     \<lparr>default_settings_path = ''/home/zi/settings'',
      getByte = (\<lambda>p. if p = ''/dev2192/features/options'' then opts else ''UHFLI''),
      getDouble = (\<lambda>p. Some 2),
      getConnectionAPILevel = level\<rparr>"

definition world0 :: "real option world" where
  "world0 = \<lparr>calls = [], warnings = []\<rparr>"

text \<open>A poll result: channel 0 has five samples at the time stamps 10, 12, 14, 16, 18,
  the third of them NaN; channel 1 has three samples at 11, 13, 17.\<close>

definition answer0 :: "real option zi_node" where
  "answer0 =
     ZiDict [(''dev2192'', ZiDict [(''boxcars'', ZiDict
       [(''0'', ZiDict [(''sample'', ZiDict
           [(''value'', ZiDoubles [Some 9, Some 1, None, Some 3, Some 7]),
            (''timestamp'', ZiUInt64s [10, 12, 14, 16, 18])])]),
        (''1'', ZiDict [(''sample'', ZiDict
           [(''value'', ZiDoubles [Some 7, Some 4, Some 7]),
            (''timestamp'', ZiUInt64s [11, 13, 17])])])])])]"

text \<open>The objects the two constructors return against \<open>server ''BOX'' 6\<close> with the
  default properties of the controller.\<close>

definition boxcars0 :: "real option boxcars" where
  "boxcars0 =
     \<lparr>device = ''dev2192'', iface = ''1GbE'', timeOut = 30,
      acqStartTime = None, acqEndTime = None, isAcquiring = False,
      devtype = ''UHFLI'', options = ''BOX'', clock = Some 2, data = Unset\<rparr>"

definition ctrl0 :: "real option controller" where
  "ctrl0 =
     \<lparr>IP = ''127.0.0.1'', port = 8004, ctrl_device = ''dev2192'', ctrl_iface = ''1GbE'',
      settings = ''PumpUnpumpBoxCar'', repRate = 1500, ctrl_timeOut = 30, zhi = boxcars0,
      ctrl_data = [], isAquiring = False\<rparr>"

text \<open>The world after the controller's constructor has returned, and a sequence of calls
  on the controller: a state query, an acquisition on axis 0 answered by \<open>answer0\<close>, a read
  of axis 1.\<close>

definition world1 :: "real option world" where
  "world1 =
     \<lparr>calls = init_calls (server ''BOX'' 6) ''127.0.0.1'' 8004 6 ''dev2192'' ''1GbE''
                ''PumpUnpumpBoxCar'',
      warnings = []\<rparr>"

definition calls0 :: "real option ctrl_call list" where
  "calls0 =
     [Call_StateOne 0,
      Call_StartOne 0 (PyFloat (Some 1)) (Some 100) (Poll_returns answer0) (Some 103),
      Call_ReadOne 1]"

text \<open>The result of \<open>readData\<close> on \<open>answer0\<close> after an acquisition from time 100 to 103.\<close>

definition result0 :: "real option pyval list" where
  "result0 =
     [PyFloat (Some 2), PyFloat (Some 6), PyFloat (Some 1), PyFloat (Some 1), PyInt 2,
      PyFloat (Some (1 / 2)), PyFloat (Some 3), PyFloat (Some (1 / 3)), PyFloat (Some 4)]"

text \<open>An acquisition on axis 0 during which the poll raises, followed by a \<open>StartOne\<close> on
  axis 1.\<close>

definition calls1 :: "real option ctrl_call list" where
  "calls1 =
     [Call_StartOne 0 (PyFloat (Some 1)) (Some 100) (Poll_raises RuntimeError) (Some 103),
      Call_StartOne 1 (PyFloat (Some 1)) (Some 104) (Poll_returns answer0) (Some 105)]"

text \<open>The controller after the calls \<open>calls0\<close>, with a poll result and an empty cache, and
  the same controller after a further read of axis 0.\<close>

definition ctrl1 :: "real option controller" where
  "ctrl1 = fst (run exact calls0 (ctrl0, world1))"

definition ctrl2 :: "real option controller" where
  "ctrl2 = ctrl1\<lparr>ctrl_data := result0\<rparr>"

section \<open>Properties\<close>


lemma calls_call: "calls (call c w) = calls w @ [c]"
  by (simp add: call_def)

lemma warnings_call: "warnings (call c w) = warnings w"
  by (simp add: call_def)

lemma fmt_d_0: "fmt_d 0 = ''0''"
  by simp

lemma fmt_d_1: "fmt_d (Suc 0) = ''1''"
  by simp

lemma sample_path_0: "sample_path dev 0 = ''/'' @ dev @ ''/boxcars/0/sample''"
  by (simp add: sample_path_def)

lemma sample_path_1: "sample_path dev (Suc 0) = ''/'' @ dev @ ''/boxcars/1/sample''"
  by (simp add: sample_path_def)

lemma starts_with_iff: "starts_with p s \<longleftrightarrow> (\<exists>b. s = p @ b)"
  by (induction p s rule: starts_with.induct) auto

lemma re_search_iff: "re_search p s \<longleftrightarrow> (\<exists>a b. s = a @ p @ b)"
proof (induction s)
  case Nil
  then show ?case by (auto simp: starts_with_iff)
next
  case (Cons c cs)
  show ?case
  proof
    assume "re_search p (c # cs)"
    then consider "starts_with p (c # cs)" | "re_search p cs" by auto
    then show "\<exists>a b. c # cs = a @ p @ b"
    proof cases
      case 1
      then obtain b where "c # cs = p @ b" by (auto simp: starts_with_iff)
      then have "c # cs = [] @ p @ b" by simp
      then show ?thesis by blast
    next
      case 2
      then obtain a b where "cs = a @ p @ b" using Cons.IH by blast
      then have "c # cs = (c # a) @ p @ b" by simp
      then show ?thesis by blast
    qed
  next
    assume "\<exists>a b. c # cs = a @ p @ b"
    then obtain a b where ab: "c # cs = a @ p @ b" by blast
    show "re_search p (c # cs)"
    proof (cases a)
      case Nil
      with ab have "starts_with p (c # cs)" by (auto simp: starts_with_iff)
      then show ?thesis by simp
    next
      case (Cons x xs)
      with ab have "cs = xs @ p @ b" by simp
      then have "re_search p cs" using Cons.IH by blast
      then show ?thesis by simp
    qed
  qed
qed

lemma boxcars_init_no_BOX:
  assumes "\<not> re_search ''BOX'' (getByte srv (''/'' @ dev @ ''/features/options''))"
  shows "boxcars_init srv ip prt api dev ifc sett rate tmo w =
           (Inl (PyException ''This example can only be ran on a UHF with the BOX option enabled.''),
            w\<lparr>calls := calls w @ take 8 (init_calls srv ip prt api dev ifc sett)\<rparr>)"
  using assms by (simp add: boxcars_init_def Let_def call_def init_calls_def)

lemma boxcars_init_api_mismatch:
  assumes "re_search ''BOX'' (getByte srv (''/'' @ dev @ ''/features/options''))"
    and "getConnectionAPILevel srv \<noteq> 6"
  shows "boxcars_init srv ip prt api dev ifc sett rate tmo w =
           (Inl TypeError, w\<lparr>calls := calls w @ take 9 (init_calls srv ip prt api dev ifc sett)\<rparr>)"
  using assms
  by (simp add: boxcars_init_def Let_def call_def init_calls_def warn_api_level_def
      py_str_mul_str_def)

lemma boxcars_init_ok:
  assumes "re_search ''BOX'' (getByte srv (''/'' @ dev @ ''/features/options''))"
    and "getConnectionAPILevel srv = 6"
  shows "boxcars_init srv ip prt api dev ifc sett rate tmo w =
           (Inr \<lparr>device = dev, iface = ifc, timeOut = tmo,
                  acqStartTime = None, acqEndTime = None, isAcquiring = False,
                  devtype = getByte srv (''/'' @ dev @ ''/features/devtype''),
                  options = getByte srv (''/'' @ dev @ ''/features/options''),
                  clock = getDouble srv (''/'' @ dev @ ''/clockbase''),
                  data = Unset\<rparr>,
            w\<lparr>calls := calls w @ init_calls srv ip prt api dev ifc sett\<rparr>)"
  using assms
  by (simp add: boxcars_init_def Let_def call_def init_calls_def subscribe_boxcars_def
      sample_path_0 sample_path_1)

lemma boxcars_init_returns_iff:
  "(\<exists>b. fst (boxcars_init srv ip prt api dev ifc sett rate tmo w) = Inr b) \<longleftrightarrow>
     re_search ''BOX'' (getByte srv (''/'' @ dev @ ''/features/options'')) \<and>
     getConnectionAPILevel srv = 6"
  by (cases "re_search ''BOX'' (getByte srv (''/'' @ dev @ ''/features/options''))";
      cases "getConnectionAPILevel srv = 6")
     (simp_all add: boxcars_init_no_BOX boxcars_init_api_mismatch boxcars_init_ok)

lemma subscribed_append: "subscribed (xs @ ys) = subscribed xs @ subscribed ys"
  by (induction xs rule: subscribed.induct) simp_all

lemma poll_timeouts_append: "poll_timeouts (xs @ ys) = poll_timeouts xs @ poll_timeouts ys"
  by (induction xs rule: poll_timeouts.induct) simp_all

text \<open>Claim C3. The claim: on an API-level mismatch the constructor issues exactly one warning
  and goes on. The code: with the option BOX present and a connection at API level 1, the
  argument of \<open>warnings.warn\<close> multiplies two strings, so the constructor raises
  TypeError after \<open>getConnectionAPILevel\<close>; no warning is issued, and neither \<open>sync\<close>
  nor a subscription follows.\<close>

theorem init_api_level_mismatch_raises:
  "boxcars_init (server ''BOX'' 1) ''127.0.0.1'' 8004 1 ''dev2192'' ''1GbE''
       ''PumpUnpumpBoxCar.xml'' 1500 30 world0 =
     (Inl TypeError,
      \<lparr>calls = [ZiDAQServer ''127.0.0.1'' 8004 1, ConnectDevice ''dev2192'' ''1GbE'', Connect,
                GetDefaultSettingsPath,
                LoadSettings ''dev2192'' ''/home/zi/settings/PumpUnpumpBoxCar.xml'',
                GetByte ''/dev2192/features/devtype'', GetByte ''/dev2192/features/options'',
                GetDouble ''/dev2192/clockbase'', GetConnectionAPILevel],
       warnings = []\<rparr>)"
  by (simp add: boxcars_init_def Let_def call_def server_def world0_def warn_api_level_def
      py_str_mul_str_def path_join_def)

text \<open>Claim C4. The claim: the constructor raises exactly when the options lack \<open>BOX\<close>.
  The code: with the options \<open>BOX,PID\<close>, which contain \<open>BOX\<close>, and a connection at
  API level 5 the constructor raises TypeError, by the product of two strings in the
  warning branch.\<close>

theorem init_raises_although_BOX_present:
  "re_search ''BOX'' (getByte (server ''BOX,PID'' 5) ''/dev2192/features/options'') \<and>
   fst (boxcars_init (server ''BOX,PID'' 5) ''127.0.0.1'' 8004 5 ''dev2192'' ''1GbE''
          ''PumpUnpumpBoxCar.xml'' 1500 30 world0) = Inl TypeError"
  by (simp add: boxcars_init_def Let_def call_def server_def world0_def warn_api_level_def
      py_str_mul_str_def)

lemma pollData_returns:
  "pollData (Poll_returns answer) now intTime self w =
     (Inr (), self\<lparr>data := Polled answer, isAcquiring := False, acqEndTime := Some now\<rparr>,
      w\<lparr>calls := calls w @ [Flush, Poll intTime 500 4 False]\<rparr>)"
  by (simp add: pollData_def Let_def call_def)

lemma pollData_poll_raises:
  "pollData (Poll_raises e) now intTime self w =
     (Inl e, self, w\<lparr>calls := calls w @ [Flush, Poll intTime 500 4 False]\<rparr>)"
  by (simp add: pollData_def Let_def call_def)

lemma pollData_flush_raises:
  "pollData (Flush_raises e) now intTime self w = (Inl e, self, w\<lparr>calls := calls w @ [Flush]\<rparr>)"
  by (simp add: pollData_def Let_def call_def)

lemma startAcq_returns:
  "startAcq now0 (Poll_returns answer) now1 intTime self w =
     (Inr (),
      self\<lparr>isAcquiring := False, acqStartTime := Some now0, data := Polled answer,
            acqEndTime := Some now1\<rparr>,
      w\<lparr>calls := calls w @ [Flush, Poll intTime 500 4 False]\<rparr>)"
  by (simp add: startAcq_def pollData_returns)

lemma startAcq_poll_raises:
  "startAcq now0 (Poll_raises e) now1 intTime self w =
     (Inl e, self\<lparr>isAcquiring := True, acqStartTime := Some now0, data := EmptyList\<rparr>,
      w\<lparr>calls := calls w @ [Flush, Poll intTime 500 4 False]\<rparr>)"
  by (simp add: startAcq_def pollData_poll_raises)

lemma startAcq_flush_raises:
  "startAcq now0 (Flush_raises e) now1 intTime self w =
     (Inl e, self\<lparr>isAcquiring := True, acqStartTime := Some now0, data := EmptyList\<rparr>,
      w\<lparr>calls := calls w @ [Flush]\<rparr>)"
  by (simp add: startAcq_def pollData_flush_raises)

lemmas startAcq_eq = startAcq_returns startAcq_poll_raises startAcq_flush_raises

lemma pollData_calls:
  "calls (snd (snd (pollData outcome now intTime self w))) =
     calls w @ outcome_calls intTime outcome"
  by (cases outcome)
     (simp_all add: pollData_returns pollData_poll_raises pollData_flush_raises)

lemma startAcq_calls:
  "calls (snd (snd (startAcq now0 outcome now1 intTime self w))) =
     calls w @ outcome_calls intTime outcome"
  by (simp add: startAcq_def pollData_calls)

text \<open>Claim C5. Whatever the integration time and whatever the object's fields (its \<open>timeOut\<close>
  among them), \<open>pollData\<close> and \<open>startAcq\<close> add exactly the calls \<open>flush()\<close> and
  \<open>poll(intTime, 500, 4, False)\<close>, the second of them unless the first raises: the timeout
  of every poll issued is 500. The poll's answer is stored before \<open>pollData\<close> returns.\<close>

theorem poll_timeout_fixed:
  "calls (snd (snd (pollData (Poll_returns answer) now intTime self w))) =
     calls w @ [Flush, Poll intTime 500 4 False]
   \<and> calls (snd (snd (startAcq now0 (Poll_returns answer) now1 intTime self w))) =
       calls w @ [Flush, Poll intTime 500 4 False]
   \<and> poll_timeouts (calls (snd (snd (startAcq now0 (Poll_returns answer) now1 intTime self w)))) =
       poll_timeouts (calls w) @ [500]
   \<and> poll_timeouts (calls (snd (snd (StartOne now0 (Poll_returns answer) now1 0 intTime c w)))) =
       poll_timeouts (calls w) @ [500]
   \<and> data (fst (snd (pollData (Poll_returns answer) now intTime self w))) = Polled answer
   \<and> calls (snd (snd (pollData (Poll_raises e) now intTime self w))) =
       calls w @ [Flush, Poll intTime 500 4 False]
   \<and> calls (snd (snd (pollData (Flush_raises e) now intTime self w))) = calls w @ [Flush]
   \<and> calls (snd (snd (startAcq now0 outcome now1 intTime self w))) =
       calls w @ outcome_calls intTime outcome
   \<and> poll_timeouts (calls (snd (snd (StartOne now0 outcome now1 0 intTime c w)))) =
       poll_timeouts (calls w) @
         (case outcome of Flush_raises x \<Rightarrow> [] | Poll_raises x \<Rightarrow> [500] | Poll_returns d \<Rightarrow> [500])"
proof -
  have "poll_timeouts (calls (snd (snd (StartOne now0 outcome now1 0 intTime c w)))) =
       poll_timeouts (calls w) @
         (case outcome of Flush_raises x \<Rightarrow> [] | Poll_raises x \<Rightarrow> [500] | Poll_returns d \<Rightarrow> [500])"
    by (cases outcome) (simp_all add: StartOne_def startAcq_eq poll_timeouts_append)
  then show ?thesis
    by (simp add: pollData_returns pollData_poll_raises pollData_flush_raises startAcq_returns
        startAcq_calls StartOne_def poll_timeouts_append)
qed

text \<open>Claim C6. The subscriptions the constructor of \<open>boxcars\<close> adds are, when it returns,
  exactly the sample paths of boxcar 0 and of boxcar 1 of the configured device, in this
  order; when it raises, it has subscribed to nothing.\<close>

theorem boxcars_init_subscriptions:
  "subscribed (calls (snd (boxcars_init srv ip prt api dev ifc sett rate tmo w))) =
     subscribed (calls w) @
       (if isl (fst (boxcars_init srv ip prt api dev ifc sett rate tmo w)) then []
        else [''/'' @ dev @ ''/boxcars/0/sample'', ''/'' @ dev @ ''/boxcars/1/sample''])"
  by (cases "re_search ''BOX'' (getByte srv (''/'' @ dev @ ''/features/options''))";
      cases "getConnectionAPILevel srv = 6")
     (simp_all add: boxcars_init_no_BOX boxcars_init_api_mismatch boxcars_init_ok
        subscribed_append init_calls_def)

theorem boxcars_init_subscriptions_witness:
  "subscribed (calls (snd (boxcars_init (server ''BOX'' 6) ''127.0.0.1'' 8004 6 ''dev2192''
       ''1GbE'' ''PumpUnpumpBoxCar.xml'' 1500 30 world0))) =
     [''/dev2192/boxcars/0/sample'', ''/dev2192/boxcars/1/sample'']"
  using boxcars_init_subscriptions [of "server ''BOX'' 6" "''127.0.0.1''" 8004 6 "''dev2192''"
      "''1GbE''" "''PumpUnpumpBoxCar.xml''" 1500 30 world0]
  by (simp add: boxcars_init_ok server_def world0_def)

text \<open>Claim C7. For every axis, \<open>StateOne\<close> returns \<open>(State.Moving, "Counter is acquiring")\<close>
  exactly when \<open>zhi.isAcquiring\<close> holds and \<open>(State.On, "Counter is stopped")\<close> exactly
  when it does not; two controllers that agree on this flag report the same state on every
  axis, whatever their other fields are.\<close>

theorem StateOne_reports_flag:
  "(StateOne axis c = (State_Moving, ''Counter is acquiring'')) = isAcquiring (zhi c)
   \<and> (StateOne axis c = (State_On, ''Counter is stopped'')) = (\<not> isAcquiring (zhi c))
   \<and> (isAcquiring (zhi c) = isAcquiring (zhi c') \<longrightarrow> StateOne axis c = StateOne axis' c')"
  by (simp add: StateOne_def)

theorem StateOne_reports_flag_witness:
  "isAcquiring (zhi ctrl0) = isAcquiring (zhi (ctrl0\<lparr>ctrl_data := [PyInt 1], isAquiring := True\<rparr>))
   \<and> StateOne 0 ctrl0 = StateOne 1 (ctrl0\<lparr>ctrl_data := [PyInt 1], isAquiring := True\<rparr>)
   \<and> StateOne 0 ctrl0 = (State_On, ''Counter is stopped'')"
  using StateOne_reports_flag [of 0 ctrl0 "ctrl0\<lparr>ctrl_data := [PyInt 1], isAquiring := True\<rparr>" 1]
  by (simp add: ctrl0_def boxcars0_def StateOne_def)

lemma controller_init_ctrl0:
  "fst (controller_init (server ''BOX'' 6) ''127.0.0.1'' 8004 ''dev2192'' ''1GbE''
     ''PumpUnpumpBoxCar'' 1500 30 world0) = Inr ctrl0"
  by (simp add: controller_init_def boxcars_init_ok server_def ctrl0_def boxcars0_def)

subsection \<open>The reduction\<close>

lemma py_getitem_Nil: "py_getitem [] i = Inl IndexError"
  by (simp add: py_getitem_def)

lemma and_then_Inr: "and_then m f = Inr r \<longleftrightarrow> (\<exists>x. m = Inr x \<and> f x = Inr r)"
  by (cases m) (simp_all add: and_then_def)

lemma and_then_Inr_simp: "and_then (Inr x) f = f x"
  by (simp add: and_then_def)

lemma py_getitem_first: "xs \<noteq> [] \<Longrightarrow> py_getitem xs 0 = Inr (hd xs)"
  by (simp add: py_getitem_def hd_conv_nth)

lemma py_getitem_last: "xs \<noteq> [] \<Longrightarrow> py_getitem xs (- 1) = Inr (last xs)"
proof -
  assume ne: "xs \<noteq> []"
  then obtain y ys where xs: "xs = y # ys" by (cases xs) auto
  have "nat (int (length (y # ys)) + - 1) = length ys" by simp
  moreover have "last (y # ys) = (y # ys) ! length ys"
    by (simp add: last_conv_nth)
  ultimately show ?thesis
    unfolding xs py_getitem_def by simp
qed

lemma py_getitem_first_Inr: "py_getitem xs 0 = Inr x \<Longrightarrow> xs \<noteq> [] \<and> x = hd xs"
  by (cases xs) (simp_all add: py_getitem_def)

lemma py_getitem_last_Inr: "py_getitem xs (- 1) = Inr x \<Longrightarrow> xs \<noteq> [] \<and> x = last xs"
  using py_getitem_last [of xs] by (cases xs) (simp_all add: py_getitem_Nil)

lemma np_and_right:
  assumes "np_and xs ys = Inr m" and "length m = length ys" and "i < length ys" and "m ! i"
  shows "ys ! i"
  using assms by (auto simp: np_and_def split: if_splits list.splits)

lemma np_and_left:
  assumes "np_and xs ys = Inr m" and "length xs = length ys" and "i < length ys" and "m ! i"
  shows "xs ! i"
  using assms by (auto simp: np_and_def split: if_splits list.splits)

lemma np_and_stretched:
  assumes "np_and xs ys = Inr m" and "length m = length ys" and "length xs \<noteq> length ys"
    and "i < length ys" and "m ! i"
  shows "length xs = 1 \<and> xs ! 0"
  using assms by (auto simp: np_and_def split: if_splits list.splits)

lemma window_mask:
  "np_and (map (\<lambda>t. lo \<le> t) ts) (map (\<lambda>t. t \<le> hi) ts) =
     Inr (map (\<lambda>t. lo \<le> t \<and> t \<le> hi) ts)"
  by (induction ts) (simp_all add: np_and_def)


lemma select_mask_eq:
  "select_mask L lo hi ts vs =
     np_and (map (\<lambda>t. lo \<le> t \<and> t \<le> hi) ts) (map (\<lambda>v. \<not> np_isnan L v) vs)"
  by (simp add: select_mask_def window_mask and_then_Inr_simp)

lemma select_mask_sound:
  assumes m: "select_mask L lo hi ts vs = Inr m" and len: "length m = length vs"
  shows "mask_sound L lo hi ts vs m"
  unfolding mask_sound_def
proof (intro allI impI)
  fix i
  assume i: "i < length vs" and sel: "m ! i"
  let ?W = "map (\<lambda>t. lo \<le> t \<and> t \<le> hi) ts"
  let ?N = "map (\<lambda>v. \<not> np_isnan L v) vs"
  from m have nm: "np_and ?W ?N = Inr m" by (simp add: select_mask_eq)
  have "?N ! i"
    using np_and_right [OF nm] len i sel by simp
  then have notnan: "\<not> np_isnan L (vs ! i)" using i by simp
  have "\<exists>j < length ts. lo \<le> ts ! j \<and> ts ! j \<le> hi \<and> (length ts = length vs \<longrightarrow> j = i)"
  proof (cases "length ts = length vs")
    case True
    then have "?W ! i" using np_and_left [OF nm] i sel by simp
    then have "lo \<le> ts ! i \<and> ts ! i \<le> hi" using True i by simp
    then show ?thesis using True i by auto
  next
    case False
    then have "length ?W = 1 \<and> ?W ! 0"
      using np_and_stretched [OF nm, of i] len i sel by simp
    then have "0 < length ts \<and> lo \<le> ts ! 0 \<and> ts ! 0 \<le> hi" by auto
    then show ?thesis using False by auto
  qed
  with notnan show "\<not> np_isnan L (vs ! i) \<and>
    (\<exists>j < length ts. lo \<le> ts ! j \<and> ts ! j \<le> hi \<and> (length ts = length vs \<longrightarrow> j = i))"
    by simp
qed

lemma bool_index_Inr:
  assumes "bool_index xs m = Inr ys"
  shows "length m = length xs" and "\<forall>y \<in> set ys. \<exists>i < length xs. m ! i \<and> xs ! i = y"
proof -
  from assms show len: "length m = length xs"
    by (simp add: bool_index_def split: if_splits)
  from assms len have ys: "ys = map fst (filter snd (zip xs m))"
    by (simp add: bool_index_def)
  show "\<forall>y \<in> set ys. \<exists>i < length xs. m ! i \<and> xs ! i = y"
  proof
    fix y
    assume "y \<in> set ys"
    then have "(y, True) \<in> set (zip xs m)" using ys by auto
    then obtain i where "i < length xs" "xs ! i = y" "m ! i = True"
      using len by (auto simp: in_set_zip)
    then show "\<exists>i < length xs. m ! i \<and> xs ! i = y" by auto
  qed
qed

lemma selected_not_nan:
  assumes snd: "mask_sound L lo hi ts vs m" and sel: "bool_index vs m = Inr xs"
  shows "\<forall>x \<in> set xs. \<not> np_isnan L x"
proof
  fix x
  assume "x \<in> set xs"
  then obtain i where i: "i < length vs" "m ! i" "vs ! i = x"
    using bool_index_Inr(2) [OF sel] by auto
  from snd i(1) i(2) have "\<not> np_isnan L (vs ! i)"
    unfolding mask_sound_def by simp
  then show "\<not> np_isnan L x" using i(3) by simp
qed

lemma and_then_InrE:
  assumes "and_then m f = Inr r"
  obtains x where "m = Inr x" and "f x = Inr r"
  using assms by (auto simp: and_then_Inr)

lemma readData_InrE:
  assumes "readData L self = Inr r"
  obtains d v1 t1 v2 t2 f1 f2 l1 l2 m1 m2 ts1 dur xs1 xs2 where
    "data self = Polled d" and
    "boxcar_value d (device self) ''0'' = Inr v1" and
    "boxcar_timestamp d (device self) ''0'' = Inr t1" and
    "boxcar_value d (device self) ''1'' = Inr v2" and
    "boxcar_timestamp d (device self) ''1'' = Inr t2" and
    "py_getitem t1 0 = Inr f1" and "py_getitem t2 0 = Inr f2" and
    "py_getitem t1 (- 1) = Inr l1" and "py_getitem t2 (- 1) = Inr l2" and
    "select_mask L (max f1 f2) (min l1 l2) t1 v1 = Inr m1" and
    "select_mask L (max f1 f2) (min l1 l2) t2 v2 = Inr m2" and
    "bool_index t1 m1 = Inr ts1" and
    "(case (acqEndTime self, acqStartTime self) of
        (Some e, Some s) \<Rightarrow> Inr (float_sub L e s)
      | _ \<Rightarrow> Inl TypeError) = Inr dur" and
    "bool_index v1 m1 = Inr xs1" and "bool_index v2 m2 = Inr xs2" and
    "r = [PyFloat (np_mean L xs1), PyFloat (np_mean L xs2),
          PyFloat (sem L xs1), PyFloat (sem L xs2),
          PyInt (int (length xs1)),
          PyFloat (float_div L (float_of_int L 1)
                     (float_div L (np_mean_uint64 L (np_diff ts1)) (clock self))),
          PyFloat dur,
          PyFloat (float_div L (np_mean L xs1) (np_mean L xs2)),
          PyFloat (float_abs L (float_sub L (np_mean L xs1) (np_mean L xs2)))]"
proof -
  from assms obtain d where d: "data self = Polled d"
    by (cases "data self") (simp_all add: readData_def)
  show thesis
    using assms unfolding readData_def d data_attr.case Let_def
    apply (elim and_then_InrE)
    apply (rule that [OF d])
    apply (assumption | simp only: sum.inject)+
    done
qed

text \<open>Claim C2. Whenever \<open>readData\<close> returns, on any data, the two masks it built select
  no sample whose value is NaN and only samples that go with a time stamp in the common
  window; the arrays \<open>boxcar1_value[select1]\<close> and \<open>boxcar2_value[select2]\<close> hold no NaN,
  and the two means and the two standard errors returned are those of these arrays.\<close>

theorem readData_excludes_nan:
  assumes "readData L self = Inr r"
  shows "\<exists>d v1 t1 v2 t2 m1 m2 xs1 xs2.
           data self = Polled d
           \<and> boxcar_value d (device self) ''0'' = Inr v1
           \<and> boxcar_timestamp d (device self) ''0'' = Inr t1
           \<and> boxcar_value d (device self) ''1'' = Inr v2
           \<and> boxcar_timestamp d (device self) ''1'' = Inr t2
           \<and> select_mask L (max (hd t1) (hd t2)) (min (last t1) (last t2)) t1 v1 = Inr m1
           \<and> select_mask L (max (hd t1) (hd t2)) (min (last t1) (last t2)) t2 v2 = Inr m2
           \<and> mask_sound L (max (hd t1) (hd t2)) (min (last t1) (last t2)) t1 v1 m1
           \<and> mask_sound L (max (hd t1) (hd t2)) (min (last t1) (last t2)) t2 v2 m2
           \<and> bool_index v1 m1 = Inr xs1
           \<and> bool_index v2 m2 = Inr xs2
           \<and> (\<forall>x \<in> set xs1 \<union> set xs2. \<not> np_isnan L x)
           \<and> r ! 0 = PyFloat (np_mean L xs1) \<and> r ! 1 = PyFloat (np_mean L xs2)
           \<and> r ! 2 = PyFloat (sem L xs1) \<and> r ! 3 = PyFloat (sem L xs2)"
proof -
  from assms obtain d v1 t1 v2 t2 f1 f2 l1 l2 m1 m2 ts1 dur xs1 xs2 where
    d: "data self = Polled d" and
    v1: "boxcar_value d (device self) ''0'' = Inr v1" and
    t1: "boxcar_timestamp d (device self) ''0'' = Inr t1" and
    v2: "boxcar_value d (device self) ''1'' = Inr v2" and
    t2: "boxcar_timestamp d (device self) ''1'' = Inr t2" and
    f1: "py_getitem t1 0 = Inr f1" and f2: "py_getitem t2 0 = Inr f2" and
    l1: "py_getitem t1 (- 1) = Inr l1" and l2: "py_getitem t2 (- 1) = Inr l2" and
    m1: "select_mask L (max f1 f2) (min l1 l2) t1 v1 = Inr m1" and
    m2: "select_mask L (max f1 f2) (min l1 l2) t2 v2 = Inr m2" and
    xs1: "bool_index v1 m1 = Inr xs1" and xs2: "bool_index v2 m2 = Inr xs2" and
    r: "r = [PyFloat (np_mean L xs1), PyFloat (np_mean L xs2),
             PyFloat (sem L xs1), PyFloat (sem L xs2),
             PyInt (int (length xs1)),
             PyFloat (float_div L (float_of_int L 1)
                        (float_div L (np_mean_uint64 L (np_diff ts1)) (clock self))),
             PyFloat dur,
             PyFloat (float_div L (np_mean L xs1) (np_mean L xs2)),
             PyFloat (float_abs L (float_sub L (np_mean L xs1) (np_mean L xs2)))]"
    by (rule readData_InrE)
  have f1': "f1 = hd t1" using py_getitem_first_Inr [OF f1] by simp
  have f2': "f2 = hd t2" using py_getitem_first_Inr [OF f2] by simp
  have l1': "l1 = last t1" using py_getitem_last_Inr [OF l1] by simp
  have l2': "l2 = last t2" using py_getitem_last_Inr [OF l2] by simp
  have s1: "mask_sound L (max f1 f2) (min l1 l2) t1 v1 m1"
    using m1 bool_index_Inr(1) [OF xs1] by (rule select_mask_sound)
  have s2: "mask_sound L (max f1 f2) (min l1 l2) t2 v2 m2"
    using m2 bool_index_Inr(1) [OF xs2] by (rule select_mask_sound)
  have nn: "\<forall>x \<in> set xs1 \<union> set xs2. \<not> np_isnan L x"
    using selected_not_nan [OF s1 xs1] selected_not_nan [OF s2 xs2] by auto
  have r0: "r ! 0 = PyFloat (np_mean L xs1)" and r1: "r ! 1 = PyFloat (np_mean L xs2)"
    and r2: "r ! 2 = PyFloat (sem L xs1)" and r3: "r ! 3 = PyFloat (sem L xs2)"
    by (simp_all add: r)
  show ?thesis
    apply (rule exI [of _ d], rule exI [of _ v1], rule exI [of _ t1], rule exI [of _ v2])
    apply (rule exI [of _ t2], rule exI [of _ m1], rule exI [of _ m2])
    apply (rule exI [of _ xs1], rule exI [of _ xs2])
    using d v1 t1 v2 t2 m1 m2 s1 s2 xs1 xs2 nn r0 r1 r2 r3
    unfolding f1' f2' l1' l2'
    apply (intro conjI)
    apply assumption+
    done
qed


lemma select_mask_same_length:
  assumes "length ts = length vs"
  shows "select_mask L lo hi ts vs = Inr (map (in_window L lo hi) (zip ts vs))"
  using assms
proof (induction ts vs rule: list_induct2)
  case Nil
  then show ?case by (simp add: select_mask_eq np_and_def)
next
  case (Cons t ts v vs)
  then show ?case by (simp add: select_mask_eq np_and_def in_window_def)
qed

lemma bool_index_values:
  assumes "length ts = length vs"
  shows "bool_index vs (map (in_window L lo hi) (zip ts vs)) =
           Inr (map snd (window_samples L lo hi ts vs))"
  using assms
  by (induction ts vs rule: list_induct2) (simp_all add: bool_index_def window_samples_def)

lemma bool_index_timestamps:
  assumes "length ts = length vs"
  shows "bool_index ts (map (in_window L lo hi) (zip ts vs)) =
           Inr (map fst (window_samples L lo hi ts vs))"
  using assms
  by (induction ts vs rule: list_induct2) (simp_all add: bool_index_def window_samples_def)

lemma readData_Polled:
  assumes d: "data self = Polled d"
    and v1: "boxcar_value d (device self) ''0'' = Inr v1"
    and t1: "boxcar_timestamp d (device self) ''0'' = Inr t1"
    and v2: "boxcar_value d (device self) ''1'' = Inr v2"
    and t2: "boxcar_timestamp d (device self) ''1'' = Inr t2"
    and len1: "length t1 = length v1" and len2: "length t2 = length v2"
    and ne1: "v1 \<noteq> []" and ne2: "v2 \<noteq> []"
    and s: "acqStartTime self = Some now0" and e: "acqEndTime self = Some now1"
    and lo: "lo = max (hd t1) (hd t2)" and hi: "hi = min (last t1) (last t2)"
    and s1: "s1 = window_samples L lo hi t1 v1" and s2: "s2 = window_samples L lo hi t2 v2"
  shows "readData L self =
     Inr [PyFloat (np_mean L (map snd s1)), PyFloat (np_mean L (map snd s2)),
          PyFloat (sem L (map snd s1)), PyFloat (sem L (map snd s2)),
          PyInt (int (length s1)),
          PyFloat (float_div L (float_of_int L 1)
                     (float_div L (np_mean_uint64 L (np_diff (map fst s1))) (clock self))),
          PyFloat (float_sub L now1 now0),
          PyFloat (float_div L (np_mean L (map snd s1)) (np_mean L (map snd s2))),
          PyFloat (float_abs L (float_sub L (np_mean L (map snd s1)) (np_mean L (map snd s2))))]"
proof -
  from len1 ne1 have t1ne: "t1 \<noteq> []" by auto
  from len2 ne2 have t2ne: "t2 \<noteq> []" by auto
  show ?thesis
    unfolding readData_def d data_attr.case v1 t1 v2 t2 and_then_Inr_simp
      py_getitem_first [OF t1ne] py_getitem_first [OF t2ne]
      py_getitem_last [OF t1ne] py_getitem_last [OF t2ne] Let_def
      lo [symmetric] hi [symmetric]
      select_mask_same_length [OF len1] select_mask_same_length [OF len2]
      bool_index_values [OF len1] bool_index_values [OF len2] bool_index_timestamps [OF len1]
      s1 [symmetric] s2 [symmetric] s e
    by (simp add: and_then_Inr_simp)
qed


lemma answer0_arrays:
  "boxcar_value answer0 ''dev2192'' ''0'' = Inr [Some 9, Some 1, None, Some 3, Some 7]"
  "boxcar_timestamp answer0 ''dev2192'' ''0'' = Inr [10, 12, 14, 16, 18]"
  "boxcar_value answer0 ''dev2192'' ''1'' = Inr [Some 7, Some 4, Some 7]"
  "boxcar_timestamp answer0 ''dev2192'' ''1'' = Inr [11, 13, 17]"
  by (simp_all add: boxcar_value_def boxcar_timestamp_def boxcar_array_def answer0_def
      and_then_def)

text \<open>Claim C1. After an acquisition whose poll result holds, for each of the two boxcar
  channels, a non-empty array of values and as many time stamps, \<open>readData\<close> returns the
  two means, the two standard errors, the number of samples of channel 0, the sampling
  frequency, the duration, \<open>mean1/mean2\<close> and \<open>|mean1 - mean2|\<close>, each computed from the
  samples of the channel whose time stamp lies between the larger of the two first time
  stamps and the smaller of the two last ones and whose value is not NaN.\<close>

theorem readData_common_window:
  assumes "boxcar_value d (device self) ''0'' = Inr v1"
    and "boxcar_timestamp d (device self) ''0'' = Inr t1"
    and "boxcar_value d (device self) ''1'' = Inr v2"
    and "boxcar_timestamp d (device self) ''1'' = Inr t2"
    and "length t1 = length v1" and "length t2 = length v2"
    and "v1 \<noteq> []" and "v2 \<noteq> []"
    and "lo = max (hd t1) (hd t2)" and "hi = min (last t1) (last t2)"
    and "s1 = window_samples L lo hi t1 v1" and "s2 = window_samples L lo hi t2 v2"
  shows "readData L (fst (snd (startAcq now0 (Poll_returns d) now1 intTime self w))) =
           Inr [PyFloat (np_mean L (map snd s1)), PyFloat (np_mean L (map snd s2)),
                PyFloat (sem L (map snd s1)), PyFloat (sem L (map snd s2)),
                PyInt (int (length s1)),
                PyFloat (float_div L (float_of_int L 1)
                           (float_div L (np_mean_uint64 L (np_diff (map fst s1))) (clock self))),
                PyFloat (float_sub L now1 now0),
                PyFloat (float_div L (np_mean L (map snd s1)) (np_mean L (map snd s2))),
                PyFloat (float_abs L
                           (float_sub L (np_mean L (map snd s1)) (np_mean L (map snd s2))))]
         \<and> set s1 \<subseteq> set (zip t1 v1) \<and> set s2 \<subseteq> set (zip t2 v2)
         \<and> (\<forall>s \<in> set s1 \<union> set s2. lo \<le> fst s \<and> fst s \<le> hi)"
proof -
  let ?b = "fst (snd (startAcq now0 (Poll_returns d) now1 intTime self w))"
  have b: "data ?b = Polled d" "device ?b = device self" "clock ?b = clock self"
    "acqStartTime ?b = Some now0" "acqEndTime ?b = Some now1"
    by (simp_all add: startAcq_eq)
  have "readData L ?b =
           Inr [PyFloat (np_mean L (map snd s1)), PyFloat (np_mean L (map snd s2)),
                PyFloat (sem L (map snd s1)), PyFloat (sem L (map snd s2)),
                PyInt (int (length s1)),
                PyFloat (float_div L (float_of_int L 1)
                           (float_div L (np_mean_uint64 L (np_diff (map fst s1))) (clock ?b))),
                PyFloat (float_sub L now1 now0),
                PyFloat (float_div L (np_mean L (map snd s1)) (np_mean L (map snd s2))),
                PyFloat (float_abs L
                           (float_sub L (np_mean L (map snd s1)) (np_mean L (map snd s2))))]"
    using b(1) assms(1-8) b(4,5) assms(9-12) unfolding b(2) [symmetric]
    by (rule readData_Polled)
  moreover have "set s1 \<subseteq> set (zip t1 v1)" "set s2 \<subseteq> set (zip t2 v2)"
    by (auto simp: assms(11,12) window_samples_def)
  moreover have "\<forall>s \<in> set s1 \<union> set s2. lo \<le> fst s \<and> fst s \<le> hi"
    by (auto simp: assms(11,12) window_samples_def in_window_def)
  ultimately show ?thesis by (simp add: b(3))
qed

theorem readData_common_window_witness:
  "boxcar_value answer0 (device boxcars0) ''0'' = Inr [Some 9, Some 1, None, Some 3, Some 7]
   \<and> boxcar_timestamp answer0 (device boxcars0) ''0'' = Inr [10, 12, 14, 16, 18]
   \<and> boxcar_value answer0 (device boxcars0) ''1'' = Inr [Some 7, Some 4, Some 7]
   \<and> boxcar_timestamp answer0 (device boxcars0) ''1'' = Inr [11, 13, 17]
   \<and> (11 :: 64 word) = max (hd [10, 12, 14, 16, 18]) (hd [11, 13, 17])
   \<and> (17 :: 64 word) = min (last [10, 12, 14, 16, 18]) (last [11, 13, 17])
   \<and> window_samples exact 11 17 [10, 12, 14, 16, 18] [Some 9, Some 1, None, Some 3, Some 7] =
       [(12, Some 1), (16, Some 3)]
   \<and> window_samples exact 11 17 [11, 13, 17] [Some 7, Some 4, Some 7] =
       [(11, Some 7), (13, Some 4), (17, Some 7)]
   \<and> readData exact
         (fst (snd (startAcq (Some 100) (Poll_returns answer0) (Some 103) (PyFloat (Some 1))
            boxcars0 world0))) =
       Inr [PyFloat (Some 2), PyFloat (Some 6), PyFloat (Some 1), PyFloat (Some 1), PyInt 2,
            PyFloat (Some (1 / 2)), PyFloat (Some 3), PyFloat (Some (1 / 3)), PyFloat (Some 4)]"
proof -
  have dev: "device boxcars0 = ''dev2192''" by (simp add: boxcars0_def)
  have h1: "boxcar_value answer0 (device boxcars0) ''0'' =
              Inr [Some 9, Some 1, None, Some 3, Some 7]"
    and h2: "boxcar_timestamp answer0 (device boxcars0) ''0'' = Inr [10, 12, 14, 16, 18]"
    and h3: "boxcar_value answer0 (device boxcars0) ''1'' = Inr [Some 7, Some 4, Some 7]"
    and h4: "boxcar_timestamp answer0 (device boxcars0) ''1'' = Inr [11, 13, 17]"
    by (simp_all add: dev answer0_arrays)
  have h5: "length [10, 12, 14, 16, 18 :: 64 word] =
              length [Some 9, Some 1, None, Some 3, Some (7 :: real)]"
    and h6: "length [11, 13, 17 :: 64 word] = length [Some 7, Some 4, Some (7 :: real)]"
    and h7: "[Some 9, Some 1, None, Some 3, Some (7 :: real)] \<noteq> []"
    and h8: "[Some 7, Some 4, Some (7 :: real)] \<noteq> []"
    by simp_all
  have h9: "(11 :: 64 word) = max (hd [10, 12, 14, 16, 18]) (hd [11, 13, 17])"
    and h10: "(17 :: 64 word) = min (last [10, 12, 14, 16, 18]) (last [11, 13, 17])"
    by simp_all
  have h11: "[(12, Some 1), (16, Some 3)] =
      window_samples exact 11 17 [10, 12, 14, 16, 18] [Some 9, Some 1, None, Some 3, Some 7]"
    and h12: "[(11, Some 7), (13, Some 4), (17, Some 7)] =
      window_samples exact 11 17 [11, 13, 17] [Some 7, Some 4, Some 7]"
    by (simp_all add: window_samples_def in_window_def exact_def)
  have clk: "clock boxcars0 = Some 2" by (simp add: boxcars0_def)
  show ?thesis
    using readData_common_window [OF h1 h2 h3 h4 h5 h6 h7 h8 h9 h10 h11 h12,
        of "Some 100" "Some 103" "PyFloat (Some 1)" world0]
      h1 h2 h3 h4 h9 h10 h11 [symmetric] h12 [symmetric]
    by (simp add: clk exact_def exact_mean_def exact_sem_def exact_div_def exact_sub_def
        power2_eq_square)
qed

theorem readData_excludes_nan_witness:
  "readData exact
      (fst (snd (startAcq (Some 100) (Poll_returns answer0) (Some 103) (PyFloat (Some 1))
            boxcars0 world0))) =
     Inr [PyFloat (Some 2), PyFloat (Some 6), PyFloat (Some 1), PyFloat (Some 1), PyInt 2,
          PyFloat (Some (1 / 2)), PyFloat (Some 3), PyFloat (Some (1 / 3)), PyFloat (Some 4)]
   \<and> (\<exists>xs1 xs2. (\<forall>x \<in> set xs1 \<union> set xs2. \<not> np_isnan exact x)
         \<and> PyFloat (Some 2) = PyFloat (np_mean exact xs1)
         \<and> PyFloat (Some 6) = PyFloat (np_mean exact xs2)
         \<and> PyFloat (Some 1) = PyFloat (sem exact xs1)
         \<and> PyFloat (Some 1) = PyFloat (sem exact xs2))"
proof -
  have h: "readData exact
      (fst (snd (startAcq (Some 100) (Poll_returns answer0) (Some 103) (PyFloat (Some 1))
            boxcars0 world0))) =
     Inr [PyFloat (Some 2), PyFloat (Some 6), PyFloat (Some 1), PyFloat (Some 1), PyInt 2,
          PyFloat (Some (1 / 2)), PyFloat (Some 3), PyFloat (Some (1 / 3)), PyFloat (Some 4)]"
    by (simp add: readData_def startAcq_eq boxcars0_def answer0_arrays and_then_def
        py_getitem_def select_mask_def np_and_def bool_index_def exact_def exact_mean_def
        exact_sem_def exact_div_def exact_sub_def Let_def power2_eq_square)
  from readData_excludes_nan [OF h] obtain xs1 xs2 where
    "\<forall>x \<in> set xs1 \<union> set xs2. \<not> np_isnan exact x"
    "[PyFloat (Some 2), PyFloat (Some 6), PyFloat (Some 1), PyFloat (Some 1), PyInt 2,
      PyFloat (Some (1 / 2)), PyFloat (Some 3), PyFloat (Some (1 / 3)), PyFloat (Some 4)] ! 0
       = PyFloat (np_mean exact xs1)"
    "[PyFloat (Some 2), PyFloat (Some 6), PyFloat (Some 1), PyFloat (Some 1), PyInt 2,
      PyFloat (Some (1 / 2)), PyFloat (Some 3), PyFloat (Some (1 / 3)), PyFloat (Some 4)] ! 1
       = PyFloat (np_mean exact xs2)"
    "[PyFloat (Some 2), PyFloat (Some 6), PyFloat (Some 1), PyFloat (Some 1), PyInt 2,
      PyFloat (Some (1 / 2)), PyFloat (Some 3), PyFloat (Some (1 / 3)), PyFloat (Some 4)] ! 2
       = PyFloat (sem exact xs1)"
    "[PyFloat (Some 2), PyFloat (Some 6), PyFloat (Some 1), PyFloat (Some 1), PyInt 2,
      PyFloat (Some (1 / 2)), PyFloat (Some 3), PyFloat (Some (1 / 3)), PyFloat (Some 4)] ! 3
       = PyFloat (sem exact xs2)"
    by blast
  then have "(\<forall>x \<in> set xs1 \<union> set xs2. \<not> np_isnan exact x)
         \<and> PyFloat (Some 2) = PyFloat (np_mean exact xs1)
         \<and> PyFloat (Some 6) = PyFloat (np_mean exact xs2)
         \<and> PyFloat (Some 1) = PyFloat (sem exact xs1)
         \<and> PyFloat (Some 1) = PyFloat (sem exact xs2)"
    by simp
  then show ?thesis using h by blast
qed

subsection \<open>Sequences of controller calls\<close>

lemma controller_init_Inr:
  assumes "fst (controller_init srv ip prt dev ifc sett rate tmo w) = Inr c0"
  shows "isAcquiring (zhi c0) = False" and "data (zhi c0) = Unset" and "ctrl_data c0 = []"
    and "device (zhi c0) = dev" and "clock (zhi c0) = getDouble srv (''/'' @ dev @ ''/clockbase'')"
    and "snd (controller_init srv ip prt dev ifc sett rate tmo w) =
           w\<lparr>calls := calls w @ init_calls srv ip prt 6 dev ifc sett\<rparr>"
proof -
  have ok: "re_search ''BOX'' (getByte srv (''/'' @ dev @ ''/features/options'')) \<and>
            getConnectionAPILevel srv = 6"
  proof (rule ccontr)
    assume "\<not> ?thesis"
    then have "isl (fst (boxcars_init srv ip prt 6 dev ifc sett rate tmo w))"
      by (cases "re_search ''BOX'' (getByte srv (''/'' @ dev @ ''/features/options''))")
         (simp_all add: boxcars_init_no_BOX boxcars_init_api_mismatch)
    then have "isl (fst (controller_init srv ip prt dev ifc sett rate tmo w))"
      by (auto simp: controller_init_def split: prod.splits sum.splits)
    with assms show False by simp
  qed
  then have eq: "controller_init srv ip prt dev ifc sett rate tmo w =
      (Inr \<lparr>IP = ip, port = prt, ctrl_device = dev, ctrl_iface = ifc, settings = sett,
             repRate = rate, ctrl_timeOut = tmo,
             zhi = \<lparr>device = dev, iface = ifc, timeOut = tmo,
                  acqStartTime = None, acqEndTime = None, isAcquiring = False,
                  devtype = getByte srv (''/'' @ dev @ ''/features/devtype''),
                  options = getByte srv (''/'' @ dev @ ''/features/options''),
                  clock = getDouble srv (''/'' @ dev @ ''/clockbase''),
                  data = Unset\<rparr>,
             ctrl_data = [], isAquiring = False\<rparr>,
       w\<lparr>calls := calls w @ init_calls srv ip prt 6 dev ifc sett\<rparr>)"
    by (simp add: controller_init_def boxcars_init_ok)
  from eq assms show "isAcquiring (zhi c0) = False" by auto
  from eq assms show "data (zhi c0) = Unset" by auto
  from eq assms show "ctrl_data c0 = []" by auto
  from eq assms show "device (zhi c0) = dev" by auto
  from eq assms show "clock (zhi c0) = getDouble srv (''/'' @ dev @ ''/clockbase'')" by auto
  from eq show "snd (controller_init srv ip prt dev ifc sett rate tmo w) =
           w\<lparr>calls := calls w @ init_calls srv ip prt 6 dev ifc sett\<rparr>" by simp
qed

lemma zhi_ReadOne: "zhi (snd (ReadOne L axis c)) = zhi c"
  by (simp add: ReadOne_def split: sum.splits)

lemma StartOne_returns:
  "StartOne now0 (Poll_returns d) now1 0 val c w =
     (Inr (),
      c\<lparr>zhi := (zhi c)\<lparr>isAcquiring := False, acqStartTime := Some now0,
                           data := Polled d, acqEndTime := Some now1\<rparr>\<rparr>,
      w\<lparr>calls := calls w @ [Flush, Poll val 500 4 False]\<rparr>)"
  by (simp add: StartOne_def startAcq_returns)

lemma StartOne_poll_raises:
  "StartOne now0 (Poll_raises e) now1 0 val c w =
     (Inl e,
      c\<lparr>zhi := (zhi c)\<lparr>isAcquiring := True, acqStartTime := Some now0, data := EmptyList\<rparr>\<rparr>,
      w\<lparr>calls := calls w @ [Flush, Poll val 500 4 False]\<rparr>)"
  by (simp add: StartOne_def startAcq_poll_raises)

lemma StartOne_flush_raises:
  "StartOne now0 (Flush_raises e) now1 0 val c w =
     (Inl e,
      c\<lparr>zhi := (zhi c)\<lparr>isAcquiring := True, acqStartTime := Some now0, data := EmptyList\<rparr>\<rparr>,
      w\<lparr>calls := calls w @ [Flush]\<rparr>)"
  by (simp add: StartOne_def startAcq_flush_raises)

lemma StartOne_other_axis:
  "axis \<noteq> 0 \<Longrightarrow> StartOne now0 outcome now1 axis val c w = (Inr (), c, w)"
  by (simp add: StartOne_def)

lemmas StartOne_eq = StartOne_returns StartOne_poll_raises StartOne_flush_raises

lemma run_append: "run L (xs @ ys) s = run L ys (run L xs s)"
  by (induction xs arbitrary: s) simp_all

lemma step_calls:
  "calls (snd (step L x (c, w))) = calls w @ acq_calls [x]"
proof (cases x)
  case (Call_StartOne axis val now0 outcome now1)
  show ?thesis
  proof (cases "axis = 0")
    case True
    then show ?thesis
      by (cases outcome) (simp_all add: Call_StartOne StartOne_eq)
  next
    case False
    then show ?thesis by (simp add: Call_StartOne StartOne_other_axis)
  qed
qed simp_all

lemma acq_calls_Cons: "acq_calls (x # xs) = acq_calls [x] @ acq_calls xs"
  by (cases x) simp_all

lemma run_calls: "calls (snd (run L xs s)) = calls (snd s) @ acq_calls xs"
proof (induction xs arbitrary: s)
  case Nil
  then show ?case by simp
next
  case (Cons x xs)
  obtain c w where s: "s = (c, w)" by (cases s)
  have "calls (snd (run L (x # xs) s)) = calls (snd (step L x s)) @ acq_calls xs"
    using Cons.IH by simp
  also have "\<dots> = (calls w @ acq_calls [x]) @ acq_calls xs"
    by (simp add: s step_calls)
  finally show ?case by (simp add: s acq_calls_Cons [of x xs])
qed

lemma step_data:
  "data (zhi (fst (step L x (c, w)))) = final_data [x] (data (zhi c))"
proof (cases x)
  case (Call_StartOne axis val now0 outcome now1)
  show ?thesis
  proof (cases "axis = 0")
    case True
    then show ?thesis
      by (cases outcome) (simp_all add: Call_StartOne StartOne_eq)
  next
    case False
    then show ?thesis by (simp add: Call_StartOne StartOne_other_axis)
  qed
qed (simp_all add: zhi_ReadOne)

lemma final_data_Cons: "final_data (x # xs) a = final_data xs (final_data [x] a)"
  by (cases x) simp_all

lemma run_data:
  "data (zhi (fst (run L xs s))) = final_data xs (data (zhi (fst s)))"
proof (induction xs arbitrary: s)
  case Nil
  then show ?case by simp
next
  case (Cons x xs)
  obtain c w where s: "s = (c, w)" by (cases s)
  have "data (zhi (fst (run L (x # xs) s))) = final_data xs (data (zhi (fst (step L x s))))"
    using Cons.IH by simp
  also have "\<dots> = final_data xs (final_data [x] (data (zhi c)))"
    by (simp add: s step_data)
  finally show ?case by (simp add: s final_data_Cons [of x xs])
qed

lemma step_device_clock:
  "device (zhi (fst (step L x (c, w)))) = device (zhi c)
   \<and> clock (zhi (fst (step L x (c, w)))) = clock (zhi c)"
proof (cases x)
  case (Call_StartOne axis val now0 outcome now1)
  show ?thesis
  proof (cases "axis = 0")
    case True
    then show ?thesis
      by (cases outcome) (simp_all add: Call_StartOne StartOne_eq)
  next
    case False
    then show ?thesis by (simp add: Call_StartOne StartOne_other_axis)
  qed
qed (simp_all add: zhi_ReadOne)

lemma run_device_clock:
  "device (zhi (fst (run L xs s))) = device (zhi (fst s))
   \<and> clock (zhi (fst (run L xs s))) = clock (zhi (fst s))"
proof (induction xs arbitrary: s)
  case Nil
  then show ?case by simp
next
  case (Cons x xs)
  obtain c w where s: "s = (c, w)" by (cases s)
  show ?case
    using Cons.IH [of "step L x s"] step_device_clock [of L x c w] by (simp add: s)
qed

lemma step_no_acq: "no_acq x \<Longrightarrow> zhi (fst (step L x (c, w))) = zhi c"
  by (cases x) (simp_all add: zhi_ReadOne StartOne_other_axis)

lemma run_no_acq: "list_all no_acq xs \<Longrightarrow> zhi (fst (run L xs s)) = zhi (fst s)"
proof (induction xs arbitrary: s)
  case Nil
  then show ?case by simp
next
  case (Cons x xs)
  obtain c w where s: "s = (c, w)" by (cases s)
  from Cons.prems have x: "no_acq x" and xs: "list_all no_acq xs" by simp_all
  have "zhi (fst (run L xs (step L x s))) = zhi (fst (step L x s))"
    using xs by (rule Cons.IH)
  then show ?case using x by (simp add: s step_no_acq)
qed

lemma step_isAcquiring:
  assumes "acq_returns x" and "\<not> isAcquiring (zhi c)"
  shows "\<not> isAcquiring (zhi (fst (step L x (c, w))))"
proof (cases x)
  case (Call_StartOne axis val now0 outcome now1)
  show ?thesis
  proof (cases "axis = 0")
    case True
    then show ?thesis
      using assms by (cases outcome) (simp_all add: Call_StartOne StartOne_eq)
  next
    case False
    then show ?thesis using assms by (simp add: Call_StartOne StartOne_other_axis)
  qed
qed (use assms in \<open>simp_all add: zhi_ReadOne\<close>)

lemma run_isAcquiring:
  "list_all acq_returns xs \<Longrightarrow> \<not> isAcquiring (zhi (fst s)) \<Longrightarrow>
     \<not> isAcquiring (zhi (fst (run L xs s)))"
proof (induction xs arbitrary: s)
  case Nil
  then show ?case by simp
next
  case (Cons x xs)
  obtain c w where s: "s = (c, w)" by (cases s)
  from Cons.prems have x: "acq_returns x" and xs: "list_all acq_returns xs" by simp_all
  from x Cons.prems(2) have "\<not> isAcquiring (zhi (fst (step L x s)))"
    by (simp add: s step_isAcquiring)
  with xs have "\<not> isAcquiring (zhi (fst (run L xs (step L x s))))"
    by (rule Cons.IH)
  then show ?case by simp
qed

lemma step_ctrl_data:
  "\<not> is_read0 x \<Longrightarrow> ctrl_data (fst (step L x (c, w))) = ctrl_data c"
proof (cases x)
  case (Call_StartOne axis val now0 outcome now1)
  show ?thesis
  proof (cases "axis = 0")
    case True
    then show ?thesis
      by (cases outcome) (simp_all add: Call_StartOne StartOne_eq)
  next
    case False
    then show ?thesis by (simp add: Call_StartOne StartOne_other_axis)
  qed
qed (simp_all add: ReadOne_def)

lemma run_ctrl_data:
  "filter is_read0 xs = [] \<Longrightarrow> ctrl_data (fst (run L xs s)) = ctrl_data (fst s)"
proof (induction xs arbitrary: s)
  case Nil
  then show ?case by simp
next
  case (Cons x xs)
  obtain c w where s: "s = (c, w)" by (cases s)
  from Cons.prems have x: "\<not> is_read0 x" and xs: "filter is_read0 xs = []"
    by (auto split: if_splits)
  have "ctrl_data (fst (run L xs (step L x s))) = ctrl_data (fst (step L x s))"
    using xs by (rule Cons.IH)
  then show ?case using x by (simp add: s step_ctrl_data)
qed

lemma controller_init_world1:
  "controller_init (server ''BOX'' 6) ''127.0.0.1'' 8004 ''dev2192'' ''1GbE''
     ''PumpUnpumpBoxCar'' 1500 30 world0 = (Inr ctrl0, world1)"
  by (simp add: controller_init_def boxcars_init_ok server_def ctrl0_def boxcars0_def
      world0_def world1_def)


text \<open>Claim C8. After the controller's constructor has returned, the calls made on the data
  server are, in this order: the calls of the constructor, which open the session, connect
  and end with the two subscriptions and contain no poll; then, for every \<open>StartOne\<close> on
  axis 0, a flush and, unless the flush raises, a poll. \<open>zhi.data\<close> is what the last
  acquisition left: before the first one \<open>readData\<close> raises AttributeError, after one whose
  flush or poll raised it raises TypeError, and after one whose poll returned, whatever was
  polled before and whatever calls without an acquisition follow, \<open>readData\<close> returns the
  reduction of that poll's answer.\<close>

theorem call_order:
  assumes "controller_init srv ip prt dev ifc sett rate tmo w0 = (Inr c0, w1)"
    and "list_all no_acq ops'"
    and "boxcar_value d dev ''0'' = Inr v1"
    and "boxcar_timestamp d dev ''0'' = Inr t1"
    and "boxcar_value d dev ''1'' = Inr v2"
    and "boxcar_timestamp d dev ''1'' = Inr t2"
    and "length t1 = length v1" and "length t2 = length v2"
    and "v1 \<noteq> []" and "v2 \<noteq> []"
    and "lo = max (hd t1) (hd t2)" and "hi = min (last t1) (last t2)"
    and "s1 = window_samples L lo hi t1 v1" and "s2 = window_samples L lo hi t2 v2"
  shows "calls (snd (run L ops (c0, w1))) =
           calls w0 @ init_calls srv ip prt 6 dev ifc sett @ acq_calls ops
         \<and> poll_timeouts (init_calls srv ip prt 6 dev ifc sett) = []
         \<and> subscribed (init_calls srv ip prt 6 dev ifc sett) =
             [''/'' @ dev @ ''/boxcars/0/sample'', ''/'' @ dev @ ''/boxcars/1/sample'']
         \<and> data (zhi (fst (run L ops (c0, w1)))) = final_data ops Unset
         \<and> (final_data ops Unset = Unset \<longrightarrow>
              readData L (zhi (fst (run L ops (c0, w1)))) = Inl AttributeError)
         \<and> (final_data ops Unset = EmptyList \<longrightarrow>
              readData L (zhi (fst (run L ops (c0, w1)))) = Inl TypeError)
         \<and> readData L (zhi (fst (run L
               (ops @ Call_StartOne 0 val now0 (Poll_returns d) now1 # ops') (c0, w1)))) =
             Inr [PyFloat (np_mean L (map snd s1)), PyFloat (np_mean L (map snd s2)),
                  PyFloat (sem L (map snd s1)), PyFloat (sem L (map snd s2)),
                  PyInt (int (length s1)),
                  PyFloat (float_div L (float_of_int L 1)
                             (float_div L (np_mean_uint64 L (np_diff (map fst s1)))
                                (getDouble srv (''/'' @ dev @ ''/clockbase'')))),
                  PyFloat (float_sub L now1 now0),
                  PyFloat (float_div L (np_mean L (map snd s1)) (np_mean L (map snd s2))),
                  PyFloat (float_abs L
                             (float_sub L (np_mean L (map snd s1)) (np_mean L (map snd s2))))]"
proof -
  from assms(1) have c0: "fst (controller_init srv ip prt dev ifc sett rate tmo w0) = Inr c0"
    and w1: "snd (controller_init srv ip prt dev ifc sett rate tmo w0) = w1"
    by simp_all
  have "calls w1 = calls w0 @ init_calls srv ip prt 6 dev ifc sett"
    using controller_init_Inr(6) [OF c0] w1 by auto
  then have 1: "calls (snd (run L ops (c0, w1))) =
           calls w0 @ init_calls srv ip prt 6 dev ifc sett @ acq_calls ops"
    by (simp add: run_calls)
  have 2: "poll_timeouts (init_calls srv ip prt 6 dev ifc sett) = []"
    by (simp add: init_calls_def)
  have 3: "subscribed (init_calls srv ip prt 6 dev ifc sett) =
             [''/'' @ dev @ ''/boxcars/0/sample'', ''/'' @ dev @ ''/boxcars/1/sample'']"
    by (simp add: init_calls_def)
  have 4: "data (zhi (fst (run L ops (c0, w1)))) = final_data ops Unset"
    using controller_init_Inr(2) [OF c0] by (simp add: run_data)
  have 5: "final_data ops Unset = Unset \<longrightarrow>
              readData L (zhi (fst (run L ops (c0, w1)))) = Inl AttributeError"
    using 4 by (simp add: readData_def)
  have 6: "final_data ops Unset = EmptyList \<longrightarrow>
              readData L (zhi (fst (run L ops (c0, w1)))) = Inl TypeError"
    using 4 by (simp add: readData_def)
  let ?mid = "run L ops (c0, w1)"
  let ?b = "zhi (fst (run L
               (ops @ Call_StartOne 0 val now0 (Poll_returns d) now1 # ops') (c0, w1)))"
  have dc: "device (zhi (fst ?mid)) = dev"
    "clock (zhi (fst ?mid)) = getDouble srv (''/'' @ dev @ ''/clockbase'')"
    using run_device_clock [of L ops "(c0, w1)"] controller_init_Inr(4,5) [OF c0] by simp_all
  have "?b = zhi (fst (step L (Call_StartOne 0 val now0 (Poll_returns d) now1) ?mid))"
    using run_no_acq [OF assms(2)] by (simp add: run_append)
  also have "\<dots> = (zhi (fst ?mid))\<lparr>isAcquiring := False, acqStartTime := Some now0,
                           data := Polled d, acqEndTime := Some now1\<rparr>"
    by (cases ?mid) (simp add: StartOne_returns)
  finally have b: "data ?b = Polled d" "device ?b = dev"
    "clock ?b = getDouble srv (''/'' @ dev @ ''/clockbase'')"
    "acqStartTime ?b = Some now0" "acqEndTime ?b = Some now1"
    using dc by simp_all
  have 7: "readData L ?b =
             Inr [PyFloat (np_mean L (map snd s1)), PyFloat (np_mean L (map snd s2)),
                  PyFloat (sem L (map snd s1)), PyFloat (sem L (map snd s2)),
                  PyInt (int (length s1)),
                  PyFloat (float_div L (float_of_int L 1)
                             (float_div L (np_mean_uint64 L (np_diff (map fst s1))) (clock ?b))),
                  PyFloat (float_sub L now1 now0),
                  PyFloat (float_div L (np_mean L (map snd s1)) (np_mean L (map snd s2))),
                  PyFloat (float_abs L
                             (float_sub L (np_mean L (map snd s1)) (np_mean L (map snd s2))))]"
    using b(1) assms(3-10) b(4,5) assms(11-14) unfolding b(2) [symmetric]
    by (rule readData_Polled)
  from 1 2 3 4 5 6 7 show ?thesis unfolding b(3) by blast
qed

theorem call_order_witness:
  "controller_init (server ''BOX'' 6) ''127.0.0.1'' 8004 ''dev2192'' ''1GbE''
     ''PumpUnpumpBoxCar'' 1500 30 world0 = (Inr ctrl0, world1)
   \<and> list_all no_acq [Call_ReadOne 1 :: real option ctrl_call]
   \<and> boxcar_value answer0 ''dev2192'' ''0'' = Inr [Some 9, Some 1, None, Some 3, Some 7]
   \<and> boxcar_timestamp answer0 ''dev2192'' ''0'' = Inr [10, 12, 14, 16, 18]
   \<and> boxcar_value answer0 ''dev2192'' ''1'' = Inr [Some 7, Some 4, Some 7]
   \<and> boxcar_timestamp answer0 ''dev2192'' ''1'' = Inr [11, 13, 17]
   \<and> calls (snd (run exact calls0 (ctrl0, world1))) =
       [ZiDAQServer ''127.0.0.1'' 8004 6, ConnectDevice ''dev2192'' ''1GbE'', Connect,
        GetDefaultSettingsPath, LoadSettings ''dev2192'' ''/home/zi/settings/PumpUnpumpBoxCar'',
        GetByte ''/dev2192/features/devtype'', GetByte ''/dev2192/features/options'',
        GetDouble ''/dev2192/clockbase'', GetConnectionAPILevel, Sync,
        Subscribe ''/dev2192/boxcars/0/sample'', Subscribe ''/dev2192/boxcars/1/sample'',
        Flush, Poll (PyFloat (Some 1)) 500 4 False]
   \<and> data (zhi (fst (run exact calls0 (ctrl0, world1)))) = Polled answer0
   \<and> readData exact (zhi (fst (run exact calls0 (ctrl0, world1)))) = Inr result0
   \<and> final_data calls1 Unset = EmptyList
   \<and> readData exact (zhi (fst (run exact calls1 (ctrl0, world1)))) = Inl TypeError
   \<and> final_data [Call_StateOne 0, Call_ReadOne 0 :: real option ctrl_call] Unset = Unset
   \<and> readData exact (zhi (fst (run exact [Call_StateOne 0, Call_ReadOne 0] (ctrl0, world1)))) =
       Inl AttributeError"
proof -
  have h2: "list_all no_acq [Call_ReadOne 1 :: real option ctrl_call]" by simp
  note h3 = answer0_arrays(1) and h4 = answer0_arrays(2)
    and h5 = answer0_arrays(3) and h6 = answer0_arrays(4)
  have h7: "length [10, 12, 14, 16, 18 :: 64 word] =
              length [Some 9, Some 1, None, Some 3, Some (7 :: real)]"
    and h8: "length [11, 13, 17 :: 64 word] = length [Some 7, Some 4, Some (7 :: real)]"
    and h9: "[Some 9, Some 1, None, Some 3, Some (7 :: real)] \<noteq> []"
    and h10: "[Some 7, Some 4, Some (7 :: real)] \<noteq> []"
    by simp_all
  have h11: "(11 :: 64 word) = max (hd [10, 12, 14, 16, 18]) (hd [11, 13, 17])"
    and h12: "(17 :: 64 word) = min (last [10, 12, 14, 16, 18]) (last [11, 13, 17])"
    by simp_all
  have h13: "[(12, Some 1), (16, Some 3)] =
      window_samples exact 11 17 [10, 12, 14, 16, 18] [Some 9, Some 1, None, Some 3, Some 7]"
    and h14: "[(11, Some 7), (13, Some 4), (17, Some 7)] =
      window_samples exact 11 17 [11, 13, 17] [Some 7, Some 4, Some 7]"
    by (simp_all add: window_samples_def in_window_def exact_def)
  note inst = call_order [OF controller_init_world1 h2 h3 h4 h5 h6 h7 h8 h9 h10 h11 h12 h13 h14,
      where val = "PyFloat (Some 1)" and ?now0.0 = "Some 100" and ?now1.0 = "Some 103"]
  have unfolded: "calls0 = [Call_StateOne 0] @
      Call_StartOne 0 (PyFloat (Some 1)) (Some 100) (Poll_returns answer0) (Some 103) #
      [Call_ReadOne 1]"
    by (simp add: calls0_def)
  have a: "calls (snd (run exact calls0 (ctrl0, world1))) =
       [ZiDAQServer ''127.0.0.1'' 8004 6, ConnectDevice ''dev2192'' ''1GbE'', Connect,
        GetDefaultSettingsPath, LoadSettings ''dev2192'' ''/home/zi/settings/PumpUnpumpBoxCar'',
        GetByte ''/dev2192/features/devtype'', GetByte ''/dev2192/features/options'',
        GetDouble ''/dev2192/clockbase'', GetConnectionAPILevel, Sync,
        Subscribe ''/dev2192/boxcars/0/sample'', Subscribe ''/dev2192/boxcars/1/sample'',
        Flush, Poll (PyFloat (Some 1)) 500 4 False]"
    and b: "data (zhi (fst (run exact calls0 (ctrl0, world1)))) = Polled answer0"
    using inst [of calls0]
    by (simp_all add: calls0_def world0_def init_calls_def server_def path_join_def)
  have c: "readData exact (zhi (fst (run exact calls0 (ctrl0, world1)))) = Inr result0"
    using inst [of "[Call_StateOne 0]"] unfolding unfolded [symmetric]
    by (simp add: result0_def server_def exact_def exact_mean_def exact_sem_def exact_div_def
        exact_sub_def power2_eq_square)
  have d: "final_data calls1 Unset = EmptyList"
    and e: "readData exact (zhi (fst (run exact calls1 (ctrl0, world1)))) = Inl TypeError"
    using inst [of calls1] by (simp_all add: calls1_def)
  have f: "final_data [Call_StateOne 0, Call_ReadOne 0 :: real option ctrl_call] Unset = Unset"
    and g: "readData exact
        (zhi (fst (run exact [Call_StateOne 0, Call_ReadOne 0] (ctrl0, world1)))) =
       Inl AttributeError"
    using inst [of "[Call_StateOne 0, Call_ReadOne 0]"] by simp_all
  from controller_init_world1 h2 h3 h4 h5 h6 a b c d e f g show ?thesis by blast
qed


lemma StateOne_On_iff:
  "(StateOne axis c = (State_On, ''Counter is stopped'')) = (\<not> isAcquiring (zhi c))"
  by (simp add: StateOne_def)

text \<open>Claim C9, as stated, fails. On the controller the constructor returns, a \<open>StartOne\<close>
  on axis 0 whose poll raises leaves \<open>isAcquiring\<close> true; a following \<open>StartOne\<close> on axis 1
  returns, and \<open>StateOne\<close> then reports \<open>(State.Moving, "Counter is acquiring")\<close>.\<close>

theorem StateOne_Moving_after_StartOne_returned:
  "controller_init (server ''BOX'' 6) ''127.0.0.1'' 8004 ''dev2192'' ''1GbE''
     ''PumpUnpumpBoxCar'' 1500 30 world0 = (Inr ctrl0, world1)
   \<and> fst (StartOne (Some 100) (Poll_raises RuntimeError) (Some 103) 0 (PyFloat (Some 1))
          ctrl0 world1) = Inl RuntimeError
   \<and> fst (StartOne (Some 104) (Poll_returns answer0) (Some 105) 1 (PyFloat (Some 1))
          (fst (snd (StartOne (Some 100) (Poll_raises RuntimeError) (Some 103) 0
                       (PyFloat (Some 1)) ctrl0 world1)))
          (snd (snd (StartOne (Some 100) (Poll_raises RuntimeError) (Some 103) 0
                       (PyFloat (Some 1)) ctrl0 world1)))) = Inr ()
   \<and> StateOne 0 (fst (run exact calls1 (ctrl0, world1))) =
       (State_Moving, ''Counter is acquiring'')"
  by (simp add: controller_init_world1 calls1_def StartOne_poll_raises StartOne_other_axis
      StateOne_def)

text \<open>Claim C9, amended. \<open>startAcq\<close> returns exactly when it leaves \<open>isAcquiring\<close> false; left
  by an exception of flush or poll, it leaves the flag true. So \<open>StateOne\<close> invoked after a
  \<open>StartOne\<close> on axis 0 reports \<open>(State.On, "Counter is stopped")\<close> exactly when that
  \<open>StartOne\<close> returned, and it goes on reporting it after any further calls during which
  no flush and no poll raises. On a constructed controller \<open>StateOne\<close> reports \<open>State.On\<close>
  after any calls, a \<open>StartOne\<close> on any axis among them, during which no flush and no poll
  has raised.\<close>

theorem StateOne_after_returned_acquisition:
  assumes "controller_init srv ip prt dev ifc sett rate tmo w0 = (Inr c0, w1)"
    and "list_all acq_returns ops" and "list_all acq_returns ops'"
  shows "(fst (startAcq now0 outcome now1 val self w) = Inr ()) =
           (\<not> isAcquiring (fst (snd (startAcq now0 outcome now1 val self w))))
         \<and> (fst (StartOne now0 outcome now1 0 val c w) = Inr ()) =
             (StateOne axis' (fst (snd (StartOne now0 outcome now1 0 val c w))) =
                (State_On, ''Counter is stopped''))
         \<and> StateOne axis'
             (fst (run L ops' (snd (StartOne now0 (Poll_returns d) now1 0 val c w)))) =
             (State_On, ''Counter is stopped'')
         \<and> StateOne axis' (fst (run L ops (c0, w1))) = (State_On, ''Counter is stopped'')"
proof -
  have 1: "(fst (startAcq now0 outcome now1 val self w) = Inr ()) =
           (\<not> isAcquiring (fst (snd (startAcq now0 outcome now1 val self w))))"
    by (cases outcome) (simp_all add: startAcq_eq)
  have 2: "(fst (StartOne now0 outcome now1 0 val c w) = Inr ()) =
             (StateOne axis' (fst (snd (StartOne now0 outcome now1 0 val c w))) =
                (State_On, ''Counter is stopped''))"
    by (cases outcome) (simp_all add: StartOne_eq StateOne_def)
  have "\<not> isAcquiring (zhi (fst (snd (StartOne now0 (Poll_returns d) now1 0 val c w))))"
    by (simp add: StartOne_returns)
  with assms(3) have "\<not> isAcquiring (zhi (fst (run L ops'
      (snd (StartOne now0 (Poll_returns d) now1 0 val c w)))))"
    by (rule run_isAcquiring)
  then have 3: "StateOne axis'
             (fst (run L ops' (snd (StartOne now0 (Poll_returns d) now1 0 val c w)))) =
             (State_On, ''Counter is stopped'')"
    by (simp add: StateOne_On_iff)
  from assms(1) have "fst (controller_init srv ip prt dev ifc sett rate tmo w0) = Inr c0"
    by simp
  then have "\<not> isAcquiring (zhi (fst (c0, w1)))"
    using controller_init_Inr(1) by fastforce
  with assms(2) have "\<not> isAcquiring (zhi (fst (run L ops (c0, w1))))"
    by (rule run_isAcquiring)
  then have 4: "StateOne axis' (fst (run L ops (c0, w1))) = (State_On, ''Counter is stopped'')"
    by (simp add: StateOne_On_iff)
  from 1 2 3 4 show ?thesis by blast
qed

theorem StateOne_after_returned_acquisition_witness:
  "controller_init (server ''BOX'' 6) ''127.0.0.1'' 8004 ''dev2192'' ''1GbE''
     ''PumpUnpumpBoxCar'' 1500 30 world0 = (Inr ctrl0, world1)
   \<and> list_all acq_returns calls0
   \<and> list_all acq_returns
        [Call_StartOne 1 (PyFloat (Some 1)) (Some 104) (Poll_raises RuntimeError) (Some 105),
         Call_ReadOne 0 :: real option ctrl_call]
   \<and> fst (startAcq (Some 100) (Poll_returns answer0) (Some 103) (PyFloat (Some 1))
          boxcars0 world1) = Inr ()
   \<and> \<not> isAcquiring (fst (snd (startAcq (Some 100) (Poll_returns answer0) (Some 103)
          (PyFloat (Some 1)) boxcars0 world1)))
   \<and> StateOne 1 (fst (snd (StartOne (Some 100) (Poll_returns answer0) (Some 103) 0
          (PyFloat (Some 1)) ctrl0 world1))) = (State_On, ''Counter is stopped'')
   \<and> StateOne 1 (fst (run exact
          [Call_StartOne 1 (PyFloat (Some 1)) (Some 104) (Poll_raises RuntimeError) (Some 105),
           Call_ReadOne 0]
          (snd (StartOne (Some 100) (Poll_returns answer0) (Some 103) 0 (PyFloat (Some 1))
                  ctrl0 world1)))) = (State_On, ''Counter is stopped'')
   \<and> StateOne 1 (fst (run exact calls0 (ctrl0, world1))) = (State_On, ''Counter is stopped'')"
proof -
  have h2: "list_all acq_returns calls0" by (simp add: calls0_def)
  have h3: "list_all acq_returns
        [Call_StartOne 1 (PyFloat (Some 1)) (Some 104) (Poll_raises RuntimeError) (Some 105),
         Call_ReadOne 0 :: real option ctrl_call]"
    by simp
  have r: "fst (startAcq (Some 100) (Poll_returns answer0) (Some 103) (PyFloat (Some 1))
          boxcars0 world1) = Inr ()"
    and r': "fst (StartOne (Some 100) (Poll_returns answer0) (Some 103) 0 (PyFloat (Some 1))
          ctrl0 world1) = Inr ()"
    by (simp_all add: startAcq_returns StartOne_returns)
  note inst = StateOne_after_returned_acquisition [OF controller_init_world1 h2 h3,
      where L = exact and outcome = "Poll_returns answer0" and d = answer0
      and ?now0.0 = "Some 100" and ?now1.0 = "Some 103" and val = "PyFloat (Some 1)"
      and self = boxcars0 and w = world1 and c = ctrl0 and axis' = 1]
  from inst r r' have
    "\<not> isAcquiring (fst (snd (startAcq (Some 100) (Poll_returns answer0) (Some 103)
          (PyFloat (Some 1)) boxcars0 world1)))"
    "StateOne 1 (fst (snd (StartOne (Some 100) (Poll_returns answer0) (Some 103) 0
          (PyFloat (Some 1)) ctrl0 world1))) = (State_On, ''Counter is stopped'')"
    "StateOne 1 (fst (run exact
          [Call_StartOne 1 (PyFloat (Some 1)) (Some 104) (Poll_raises RuntimeError) (Some 105),
           Call_ReadOne 0]
          (snd (StartOne (Some 100) (Poll_returns answer0) (Some 103) 0 (PyFloat (Some 1))
                  ctrl0 world1)))) = (State_On, ''Counter is stopped'')"
    "StateOne 1 (fst (run exact calls0 (ctrl0, world1))) = (State_On, ''Counter is stopped'')"
    by blast+
  with controller_init_world1 h2 h3 r show ?thesis by blast
qed


lemma readData_length: "readData L b = Inr t \<Longrightarrow> length t = 9"
  by (erule readData_InrE) simp

lemma ReadOne_other_axis: "axis \<noteq> 0 \<Longrightarrow> ReadOne L axis c = (py_getitem (ctrl_data c) axis, c)"
  by (simp add: ReadOne_def)

text \<open>Claim C10. \<open>ReadOne\<close> on axis 0 replaces the cache by the tuple of nine that
  \<open>readData\<close> returns and returns its first element; when \<open>readData\<close> raises, the cache
  stays and the exception is passed on. \<open>ReadOne\<close> on an axis \<open>n\<close> other than 0 changes
  nothing and returns the element of the cached tuple at \<open>n\<close>, counted from 0, when
  \<open>0 < n < len\<close>, and the one at \<open>len + n\<close> when \<open>-len \<le> n < 0\<close>; outside it raises
  IndexError. A read of axis 0 followed by a read of axis \<open>n\<close> returns element \<open>n\<close> of the
  tuple just cached. No call of \<open>ReadOne\<close> adds a call on the data server. On a
  constructed controller, as long as no \<open>ReadOne\<close> on axis 0 has been made, the cache is
  the empty list and \<open>ReadOne\<close> on any other axis raises IndexError.\<close>

theorem ReadOne_cache:
  assumes "axis \<noteq> 0"
    and "controller_init srv ip prt dev ifc sett rate tmo w0 = (Inr c0, w1)"
    and "filter is_read0 ops = []"
  shows "(0 < axis \<and> axis < int (length (ctrl_data c)) \<longrightarrow>
            ReadOne L axis c = (Inr (ctrl_data c ! nat axis), c))
         \<and> (int (length (ctrl_data c)) \<le> axis \<longrightarrow> ReadOne L axis c = (Inl IndexError, c))
         \<and> (- int (length (ctrl_data c)) \<le> axis \<and> axis < 0 \<longrightarrow>
              ReadOne L axis c =
                (Inr (ctrl_data c ! nat (int (length (ctrl_data c)) + axis)), c))
         \<and> (axis < - int (length (ctrl_data c)) \<longrightarrow> ReadOne L axis c = (Inl IndexError, c))
         \<and> (readData L (zhi c) = Inr t \<longrightarrow>
              length t = 9
              \<and> ReadOne L 0 c = (Inr (t ! 0), c\<lparr>ctrl_data := t\<rparr>)
              \<and> (0 < axis \<and> axis < 9 \<longrightarrow>
                   ReadOne L axis (snd (ReadOne L 0 c)) =
                     (Inr (t ! nat axis), c\<lparr>ctrl_data := t\<rparr>)))
         \<and> (readData L (zhi c) = Inl e \<longrightarrow> ReadOne L 0 c = (Inl e, c))
         \<and> snd (step L (Call_ReadOne axis') (c, w)) = w
         \<and> ctrl_data (fst (run L ops (c0, w1))) = []
         \<and> fst (ReadOne L axis (fst (run L ops (c0, w1)))) = Inl IndexError"
proof -
  note other = ReadOne_other_axis [OF assms(1)]
  have 1: "0 < axis \<and> axis < int (length (ctrl_data c)) \<longrightarrow>
            ReadOne L axis c = (Inr (ctrl_data c ! nat axis), c)"
    by (simp add: other py_getitem_def)
  have 2: "int (length (ctrl_data c)) \<le> axis \<longrightarrow> ReadOne L axis c = (Inl IndexError, c)"
    by (simp add: other py_getitem_def)
  have 3: "- int (length (ctrl_data c)) \<le> axis \<and> axis < 0 \<longrightarrow>
              ReadOne L axis c =
                (Inr (ctrl_data c ! nat (int (length (ctrl_data c)) + axis)), c)"
    by (simp add: other py_getitem_def)
  have 4: "axis < - int (length (ctrl_data c)) \<longrightarrow> ReadOne L axis c = (Inl IndexError, c)"
    by (simp add: other py_getitem_def)
  have 5: "readData L (zhi c) = Inr t \<longrightarrow>
              length t = 9
              \<and> ReadOne L 0 c = (Inr (t ! 0), c\<lparr>ctrl_data := t\<rparr>)
              \<and> (0 < axis \<and> axis < 9 \<longrightarrow>
                   ReadOne L axis (snd (ReadOne L 0 c)) =
                     (Inr (t ! nat axis), c\<lparr>ctrl_data := t\<rparr>))"
  proof
    assume t: "readData L (zhi c) = Inr t"
    then have len: "length t = 9" by (rule readData_length)
    have zero: "ReadOne L 0 c = (Inr (t ! 0), c\<lparr>ctrl_data := t\<rparr>)"
      using t len by (simp add: ReadOne_def py_getitem_def)
    have "0 < axis \<and> axis < 9 \<longrightarrow>
            ReadOne L axis (snd (ReadOne L 0 c)) = (Inr (t ! nat axis), c\<lparr>ctrl_data := t\<rparr>)"
      using len by (simp add: zero ReadOne_other_axis [OF assms(1)] py_getitem_def)
    with len zero show "length t = 9
              \<and> ReadOne L 0 c = (Inr (t ! 0), c\<lparr>ctrl_data := t\<rparr>)
              \<and> (0 < axis \<and> axis < 9 \<longrightarrow>
                   ReadOne L axis (snd (ReadOne L 0 c)) =
                     (Inr (t ! nat axis), c\<lparr>ctrl_data := t\<rparr>))"
      by blast
  qed
  have 6: "readData L (zhi c) = Inl e \<longrightarrow> ReadOne L 0 c = (Inl e, c)"
    by (simp add: ReadOne_def)
  have 7: "snd (step L (Call_ReadOne axis') (c, w)) = w" by simp
  from assms(2) have "fst (controller_init srv ip prt dev ifc sett rate tmo w0) = Inr c0"
    by simp
  then have "ctrl_data c0 = []" by (rule controller_init_Inr(3))
  then have 8: "ctrl_data (fst (run L ops (c0, w1))) = []"
    using run_ctrl_data [OF assms(3), of L "(c0, w1)"] by simp
  then have 9: "fst (ReadOne L axis (fst (run L ops (c0, w1)))) = Inl IndexError"
    by (simp add: ReadOne_other_axis [OF assms(1)] py_getitem_Nil)
  from 1 2 3 4 5 6 7 8 9 show ?thesis by blast
qed

lemma ctrl1_eq:
  "ctrl1 = ctrl0\<lparr>zhi := boxcars0\<lparr>isAcquiring := False, acqStartTime := Some (Some 100),
                                   data := Polled answer0, acqEndTime := Some (Some 103)\<rparr>\<rparr>"
  by (simp add: ctrl1_def calls0_def StartOne_returns ReadOne_def py_getitem_Nil ctrl0_def)

lemma readData_ctrl1: "readData exact (zhi ctrl1) = Inr result0"
  by (simp add: ctrl1_eq result0_def readData_def boxcars0_def answer0_arrays and_then_def
      py_getitem_def select_mask_def np_and_def bool_index_def exact_def exact_mean_def
      exact_sem_def exact_div_def exact_sub_def Let_def power2_eq_square)

theorem ReadOne_cache_witness:
  "(3 :: int) \<noteq> 0
   \<and> controller_init (server ''BOX'' 6) ''127.0.0.1'' 8004 ''dev2192'' ''1GbE''
       ''PumpUnpumpBoxCar'' 1500 30 world0 = (Inr ctrl0, world1)
   \<and> filter is_read0 calls0 = []
   \<and> ctrl_data (fst (run exact calls0 (ctrl0, world1))) = []
   \<and> fst (ReadOne exact 3 (fst (run exact calls0 (ctrl0, world1)))) = Inl IndexError
   \<and> readData exact (zhi ctrl1) = Inr result0
   \<and> ReadOne exact 0 ctrl1 = (Inr (PyFloat (Some 2)), ctrl2)
   \<and> ReadOne exact 7 (snd (ReadOne exact 0 ctrl1)) = (Inr (PyFloat (Some (1 / 3))), ctrl2)
   \<and> ReadOne exact 7 ctrl2 = (Inr (PyFloat (Some (1 / 3))), ctrl2)
   \<and> ReadOne exact 1 ctrl2 = (Inr (PyFloat (Some 6)), ctrl2)
   \<and> ReadOne exact 9 ctrl2 = (Inl IndexError, ctrl2)
   \<and> ReadOne exact (- 1) ctrl2 = (Inr (PyFloat (Some 4)), ctrl2)
   \<and> ReadOne exact (- 10) ctrl2 = (Inl IndexError, ctrl2)"
proof -
  have h3: "(3 :: int) \<noteq> 0" and h7: "(7 :: int) \<noteq> 0" and h1: "(1 :: int) \<noteq> 0"
    and h9: "(9 :: int) \<noteq> 0" and hm1: "(- 1 :: int) \<noteq> 0" and hm10: "(- 10 :: int) \<noteq> 0"
    by simp_all
  have hf: "filter is_read0 calls0 = []" by (simp add: calls0_def)
  have len: "length (ctrl_data ctrl2) = 9" and cd: "ctrl_data ctrl2 = result0"
    by (simp_all add: ctrl2_def result0_def)
  have a: "ctrl_data (fst (run exact calls0 (ctrl0, world1))) = []"
    and b: "fst (ReadOne exact 3 (fst (run exact calls0 (ctrl0, world1)))) = Inl IndexError"
    using ReadOne_cache [OF h3 controller_init_world1 hf, where L = exact] by blast+
  have five: "length result0 = 9
      \<and> ReadOne exact 0 ctrl1 = (Inr (result0 ! 0), ctrl1\<lparr>ctrl_data := result0\<rparr>)
      \<and> ((0 :: int) < 7 \<and> (7 :: int) < 9 \<longrightarrow>
           ReadOne exact 7 (snd (ReadOne exact 0 ctrl1)) =
             (Inr (result0 ! nat 7), ctrl1\<lparr>ctrl_data := result0\<rparr>))"
    using ReadOne_cache [OF h7 controller_init_world1 hf, where L = exact and c = ctrl1
        and t = result0] readData_ctrl1
    by blast
  have in_range: "(0 :: int) < 7 \<and> (7 :: int) < 9" by simp
  have r0: "result0 ! 0 = PyFloat (Some 2)" and r7: "result0 ! nat 7 = PyFloat (Some (1 / 3))"
    by (simp_all add: result0_def)
  have c: "ReadOne exact 0 ctrl1 = (Inr (PyFloat (Some 2)), ctrl2)"
    using five unfolding r0 ctrl2_def by blast
  have d: "ReadOne exact 7 (snd (ReadOne exact 0 ctrl1)) = (Inr (PyFloat (Some (1 / 3))), ctrl2)"
    using five in_range unfolding r7 ctrl2_def by blast
  have e: "ReadOne exact 7 ctrl2 = (Inr (PyFloat (Some (1 / 3))), ctrl2)"
    using ReadOne_cache [OF h7 controller_init_world1 hf, where L = exact and c = ctrl2] len
    by (simp add: cd result0_def)
  have f: "ReadOne exact 1 ctrl2 = (Inr (PyFloat (Some 6)), ctrl2)"
    using ReadOne_cache [OF h1 controller_init_world1 hf, where L = exact and c = ctrl2] len
    by (simp add: cd result0_def)
  have g: "ReadOne exact 9 ctrl2 = (Inl IndexError, ctrl2)"
    using ReadOne_cache [OF h9 controller_init_world1 hf, where L = exact and c = ctrl2] len
    by simp
  have h: "ReadOne exact (- 1) ctrl2 = (Inr (PyFloat (Some 4)), ctrl2)"
    using ReadOne_cache [OF hm1 controller_init_world1 hf, where L = exact and c = ctrl2] len
    by (simp add: cd result0_def)
  have i: "ReadOne exact (- 10) ctrl2 = (Inl IndexError, ctrl2)"
    using ReadOne_cache [OF hm10 controller_init_world1 hf, where L = exact and c = ctrl2] len
    by simp
  from h3 controller_init_world1 hf a b readData_ctrl1 c d e f g h i show ?thesis by blast
qed

end
